theory Spec2Isabelle
  imports Main "HOL-Library.Char_ord" "HOL-Library.List_Lexorder" "HOL-Library.Product_Lexorder"
begin

section \<open>Values\<close>

text \<open>
  The dashboard (\<open>src/app.py\<close>) keeps two pandas tables loaded from CSV files and answers
  Dash callbacks from them. A table cell is a number, a string, a timestamp or a missing
  value (pandas \<open>NaN\<close>/\<open>NaT\<close>/\<open>None\<close>). Metric columns hold counts (spec, section 3), so
  numbers are integers; timestamps are integers on some fixed time axis.
\<close>

datatype cell = Num int | Str string | Date int | NaN

text \<open>The Python exceptions the modelled code can meet.\<close>

datatype py_error = KeyError string | ValueError | TypeError | AttributeError

text \<open>
  A textbox or dropdown value handed to a callback is a string or \<open>None\<close>. Python's
  truth test \<open>not v\<close> holds for \<open>None\<close> and for the empty string.
\<close>

definition truthy :: "string option \<Rightarrow> bool" where
  "truthy v = (case v of None \<Rightarrow> False | Some s \<Rightarrow> s \<noteq> [])"

text \<open>
  Elementwise \<open>series == value\<close> of a column cell against a callback value: a string cell
  equals the same string; a missing cell equals nothing, and nothing equals \<open>None\<close>.
\<close>

definition cell_eq :: "cell \<Rightarrow> string option \<Rightarrow> bool" where
  "cell_eq c v = (case v of None \<Rightarrow> False | Some s \<Rightarrow> c = Str s)"

section \<open>Credential check\<close>

text \<open>
  \<open>load_users\<close> (app.py:25-35) reads \<open>users.csv\<close> and casts \<open>password_hash\<close> to \<open>str\<close>; on any
  failure it yields a table with the three columns and no row. With the documented file
  layout \<open>username,password_hash,role\<close> (spec, section 6) a row of \<open>users_df\<close> has a
  \<open>username\<close> cell (a string, a number when the file holds one, or missing), a
  \<open>password_hash\<close> string and a \<open>role\<close> cell.
\<close>

record user_row =
  username :: cell
  password_hash :: string
  role :: cell

text \<open>
  \<open>verify_user\<close> (app.py:39-50). \<open>bcrypt.checkpw\<close> is the library primitive, taken as a
  parameter: it answers a boolean, or raises (for instance on a malformed stored hash).
  The \<open>try/except Exception\<close> around it turns every raise into \<open>False\<close>.
\<close>

definition verify_user ::
  "(string \<Rightarrow> string \<Rightarrow> py_error + bool) \<Rightarrow> user_row list \<Rightarrow> string option \<Rightarrow> string option \<Rightarrow> bool"
where
  "verify_user checkpw users_df uname pw =
     (if \<not> truthy uname \<or> \<not> truthy pw then False
      else
        let user = filter (\<lambda>r. cell_eq (username r) uname) users_df in
        if user = [] then False
        else
          let hashed = password_hash (hd user) in
          (case checkpw (the pw) hashed of
             Inr b \<Rightarrow> b
           | Inl e \<Rightarrow> False))"

section \<open>Login\<close>

text \<open>
  Values stored in the \<open>session-auth\<close> store, and what a callback may return for an
  output: a new value or \<open>dash.no_update\<close>, which leaves the output as it is.
\<close>

datatype pyval = PNone | PBool bool | PStr string

type_synonym pydict = "(string \<times> pyval) list"

datatype 'a dash_output = no_update | Set 'a

definition apply_output :: "'a option \<Rightarrow> 'a dash_output \<Rightarrow> 'a option" where
  "apply_output store out = (case out of no_update \<Rightarrow> store | Set v \<Rightarrow> Some v)"

definition truthy_list :: "'a list option \<Rightarrow> bool" where
  "truthy_list v = (case v of None \<Rightarrow> False | Some xs \<Rightarrow> xs \<noteq> [])"

definition py_str :: "string option \<Rightarrow> pyval" where
  "py_str v = (case v of None \<Rightarrow> PNone | Some s \<Rightarrow> PStr s)"

text \<open>
  \<open>login\<close> (app.py:1407-1417). \<open>uuid4\<close> is the string \<open>str(uuid.uuid4())\<close> drawn by this
  call; \<open>remember\<close> is the value of the remember-me checklist.
\<close>

definition login ::
  "(string \<Rightarrow> string \<Rightarrow> py_error + bool) \<Rightarrow> user_row list \<Rightarrow> string \<Rightarrow>
   nat option \<Rightarrow> string option \<Rightarrow> string option \<Rightarrow> string list option \<Rightarrow> pydict dash_output \<times> string"
where
  "login checkpw users_df uuid4 n_clicks uname pw remember =
     (if \<not> truthy uname \<or> \<not> truthy pw then
        (no_update, ''Please enter both username and password.'')
      else if verify_user checkpw users_df uname pw then
        let session_id = uuid4;
            auth_data = [(''authenticated'', PBool True), (''user'', py_str uname),
                         (''session_id'', PStr session_id)];
            auth_data = (if truthy_list remember
                         then auth_data @ [(''persistent'', PBool True)] else auth_data)
        in (Set auth_data, '''')
      else (no_update, ''Invalid username or password.''))"

section \<open>Tables\<close>

text \<open>
  A pandas \<open>DataFrame\<close>: its column names in order, and its rows in order. A row gives the
  cell of each column; what it gives outside \<open>columns\<close> is never read. \<open>df.empty\<close> holds
  when the frame has no row or no column.

  \<open>load_data\<close> (app.py:53-71) parses the \<open>date\<close> column with \<open>errors='coerce'\<close>, and yields
  the empty frame when that fails: in a loaded frame every \<open>date\<close> cell is a timestamp
  \<open>Date d\<close> or the missing value \<open>NaN\<close> (\<open>NaT\<close>).
\<close>

record dataframe =
  columns :: "string list"
  rows :: "(string \<Rightarrow> cell) list"

definition df_empty :: "dataframe \<Rightarrow> bool" where
  "df_empty d = (rows d = [] \<or> columns d = [])"

text \<open>\<open>name in df.columns\<close> for a callback value, which may be \<open>None\<close>.\<close>

definition in_columns :: "string option \<Rightarrow> dataframe \<Rightarrow> bool" where
  "in_columns v d = (case v of None \<Rightarrow> False | Some c \<Rightarrow> c \<in> set (columns d))"

text \<open>Sequencing of steps that may raise: the first exception ends the computation.\<close>

definition and_then :: "'e + 'a \<Rightarrow> ('a \<Rightarrow> 'e + 'b) \<Rightarrow> 'e + 'b" where
  "and_then m f = (case m of Inl e \<Rightarrow> Inl e | Inr x \<Rightarrow> f x)"

text \<open>\<open>if cond: dff = step(dff)\<close>.\<close>

definition when_do :: "bool \<Rightarrow> ('a \<Rightarrow> 'e + 'a) \<Rightarrow> 'a \<Rightarrow> 'e + 'a" where
  "when_do cond step x = (if cond then step x else Inr x)"

text \<open>
  Comparison of a \<open>date\<close> cell with a timestamp; a comparison with \<open>NaT\<close> is false.
\<close>

definition ge_ts :: "int \<Rightarrow> cell \<Rightarrow> bool" where
  "ge_ts t c = (case c of Date d \<Rightarrow> t \<le> d | _ \<Rightarrow> False)"

definition le_ts :: "int \<Rightarrow> cell \<Rightarrow> bool" where
  "le_ts t c = (case c of Date d \<Rightarrow> d \<le> t | _ \<Rightarrow> False)"

text \<open>
  \<open>dff[dff['date'] >= pd.to_datetime(start_date)]\<close> and its \<open>\<le>\<close> twin: the column lookup
  raises \<open>KeyError\<close> on a missing column, then \<open>pd.to_datetime\<close> (a parameter) may raise on
  the string it is given; the rows that pass are kept in order.
\<close>

definition date_ge ::
  "(string \<Rightarrow> py_error + int) \<Rightarrow> string option \<Rightarrow> dataframe \<Rightarrow> py_error + dataframe" where
  "date_ge to_datetime start_date dff =
     (if ''date'' \<notin> set (columns dff) then Inl (KeyError ''date'')
      else and_then (to_datetime (the start_date))
             (\<lambda>t. Inr (dff\<lparr>rows := filter (\<lambda>r. ge_ts t (r ''date'')) (rows dff)\<rparr>)))"

definition date_le ::
  "(string \<Rightarrow> py_error + int) \<Rightarrow> string option \<Rightarrow> dataframe \<Rightarrow> py_error + dataframe" where
  "date_le to_datetime end_date dff =
     (if ''date'' \<notin> set (columns dff) then Inl (KeyError ''date'')
      else and_then (to_datetime (the end_date))
             (\<lambda>t. Inr (dff\<lparr>rows := filter (\<lambda>r. le_ts t (r ''date'')) (rows dff)\<rparr>)))"

text \<open>\<open>dff[dff[col] == value]\<close>.\<close>

definition col_eq :: "string \<Rightarrow> string option \<Rightarrow> dataframe \<Rightarrow> py_error + dataframe" where
  "col_eq col v dff =
     (if col \<notin> set (columns dff) then Inl (KeyError col)
      else Inr (dff\<lparr>rows := filter (\<lambda>r. cell_eq (r col) v) (rows dff)\<rparr>))"

text \<open>
  \<open>dff[[col for col in columns_to_keep if col in dff.columns]]\<close>: the columns become the
  listed ones that exist, in the order listed.
\<close>

definition select_columns :: "string list \<Rightarrow> dataframe \<Rightarrow> dataframe" where
  "select_columns columns_to_keep dff =
     dff\<lparr>columns := filter (\<lambda>col. col \<in> set (columns dff)) columns_to_keep\<rparr>"

text \<open>
  What leaves a frame: \<open>to_dict('records')\<close> is one dictionary per row, from column name to
  cell; \<open>to_csv(index=False)\<close> is the header line and one record of cells per row.
\<close>

definition to_records :: "dataframe \<Rightarrow> (string \<times> cell) list list" where
  "to_records d = map (\<lambda>r. map (\<lambda>c. (c, r c)) (columns d)) (rows d)"

definition to_csv :: "dataframe \<Rightarrow> string list \<times> cell list list" where
  "to_csv d = (columns d, map (\<lambda>r. map r (columns d)) (rows d))"

definition head :: "nat \<Rightarrow> dataframe \<Rightarrow> dataframe" where
  "head n d = d\<lparr>rows := take n (rows d)\<rparr>"

section \<open>Export\<close>

text \<open>
  The columns kept when a single metric is chosen. A metric of \<open>None\<close> is in no frame, so
  the comprehension drops it.
\<close>

definition columns_to_keep :: "string option \<Rightarrow> string list" where
  "columns_to_keep metric =
     [''date'', ''country'', ''continent'', ''age_group''] @
     (case metric of None \<Rightarrow> [] | Some m \<Rightarrow> [m])"

text \<open>\<open>update_export_preview\<close> (app.py:2046-2071): the preview records and the header text.\<close>

definition update_export_preview ::
  "(string \<Rightarrow> py_error + int) \<Rightarrow> dataframe \<Rightarrow>
   string option \<Rightarrow> string option \<Rightarrow> string option \<Rightarrow> string option \<Rightarrow>
   py_error + ((string \<times> cell) list list \<times> string)"
where
  "update_export_preview to_datetime df start_date end_date metric continent =
     (if df_empty df then Inr ([], ''No data available'')
      else
        and_then (when_do (truthy start_date) (date_ge to_datetime start_date) df) (\<lambda>dff.
        and_then (when_do (truthy end_date) (date_le to_datetime end_date) dff) (\<lambda>dff.
        and_then (when_do (continent \<noteq> Some ''all'') (col_eq ''continent'' continent) dff) (\<lambda>dff.
        and_then (when_do (metric \<noteq> Some ''all'')
                    (\<lambda>dff. Inr (select_columns (columns_to_keep metric) dff)) dff) (\<lambda>dff.
          let filters_applied = (start_date \<noteq> None \<or> end_date \<noteq> None \<or>
                                 continent \<noteq> Some ''all'' \<or> metric \<noteq> Some ''all'');
              header_text = (if filters_applied then ''Filtered Dataset Preview''
                             else ''Dataset Preview (First 10 rows)'')
          in Inr (to_records (head 10 dff), header_text))))))"

text \<open>
  \<open>download_csv\<close> (app.py:2333-2349): \<open>None\<close> for an empty table, else the CSV written from
  the filtered frame by \<open>dcc.send_data_frame\<close>.
\<close>

definition download_csv ::
  "(string \<Rightarrow> py_error + int) \<Rightarrow> dataframe \<Rightarrow> nat option \<Rightarrow>
   string option \<Rightarrow> string option \<Rightarrow> string option \<Rightarrow> string option \<Rightarrow>
   py_error + (string list \<times> cell list list) option"
where
  "download_csv to_datetime df n_clicks start_date end_date metric continent =
     (if df_empty df then Inr None
      else
        and_then (when_do (truthy start_date) (date_ge to_datetime start_date) df) (\<lambda>dff.
        and_then (when_do (truthy end_date) (date_le to_datetime end_date) dff) (\<lambda>dff.
        and_then (when_do (continent \<noteq> Some ''all'') (col_eq ''continent'' continent) dff) (\<lambda>dff.
        and_then (when_do (metric \<noteq> Some ''all'')
                    (\<lambda>dff. Inr (select_columns (columns_to_keep metric) dff)) dff) (\<lambda>dff.
          Inr (Some (to_csv dff)))))))"

section \<open>Analytics and time tabs\<close>

text \<open>
  What a callback returns: strings, cells, figures, and Python lists and tuples of them.
  \<open>go.Figure()\<close> and \<open>px.line()\<close> are the two empty figures of the source; a figure drawn
  from data is \<open>Plot p\<close>, with \<open>p\<close> whatever the plotting library builds.
\<close>

datatype 'p figure = go_Figure | px_line | Plot 'p

datatype 'p ret = RStr string | RCell cell | RFig "'p figure" | RList "'p ret list" | RTuple "'p ret list"

text \<open>
  \<open>update_analytics_tab\<close> (app.py:1563-1652). Lines 1578-1652, reached with a non-empty
  filtered frame, compute floating-point statistics and build the gauges and the heat
  map; they are the parameter \<open>analytics_outputs\<close>, which may raise.
\<close>

definition update_analytics_tab ::
  "(dataframe \<Rightarrow> string \<Rightarrow> py_error + 'p ret) \<Rightarrow> (string \<Rightarrow> py_error + int) \<Rightarrow> dataframe \<Rightarrow>
   string option \<Rightarrow> string option \<Rightarrow> string option \<Rightarrow> string option \<Rightarrow> py_error + 'p ret"
where
  "update_analytics_tab analytics_outputs to_datetime df start_date end_date metric continent =
     (if df_empty df \<or> \<not> in_columns metric df then
        Inr (RTuple [RList (replicate 5 (RStr ''N/A'')),
                     RFig go_Figure, RFig go_Figure, RFig go_Figure])
      else
        and_then (when_do (truthy start_date) (date_ge to_datetime start_date) df) (\<lambda>dff.
        and_then (when_do (truthy end_date) (date_le to_datetime end_date) dff) (\<lambda>dff.
        and_then (when_do (continent \<noteq> Some ''all'') (col_eq ''continent'' continent) dff) (\<lambda>dff.
          if df_empty dff then
            Inr (RTuple [RList (replicate 5 (RStr ''No data'')),
                         RFig go_Figure, RFig go_Figure, RFig go_Figure])
          else analytics_outputs dff (the metric)))))"

text \<open>
  \<open>update_time_tab\<close> (app.py:1764-1838). Lines 1781-1838 resample the non-empty filtered
  frame, fit the trend line and draw the chart; they are the parameter \<open>time_outputs\<close>.
\<close>

definition update_time_tab ::
  "(dataframe \<Rightarrow> string \<Rightarrow> string option \<Rightarrow> string option \<Rightarrow> string option \<Rightarrow> py_error + 'p ret) \<Rightarrow>
   (string \<Rightarrow> py_error + int) \<Rightarrow> dataframe \<Rightarrow>
   string option \<Rightarrow> string option \<Rightarrow> string option \<Rightarrow> string option \<Rightarrow> string option \<Rightarrow>
   string option \<Rightarrow> py_error + 'p ret"
where
  "update_time_tab time_outputs to_datetime df start_date end_date metric continent country
       granularity =
     (if df_empty df \<or> \<not> in_columns metric df then
        Inr (RTuple [RFig go_Figure, RStr ''Select a metric''])
      else
        and_then (when_do (truthy start_date) (date_ge to_datetime start_date) df) (\<lambda>dff.
        and_then (when_do (truthy end_date) (date_le to_datetime end_date) dff) (\<lambda>dff.
        and_then (when_do (continent \<noteq> Some ''all'') (col_eq ''continent'' continent) dff) (\<lambda>dff.
        and_then (when_do (country \<noteq> Some ''all'') (col_eq ''country'' country) dff) (\<lambda>dff.
          if df_empty dff then
            Inr (RTuple [RFig go_Figure, RStr ''No data available for selected filters''])
          else time_outputs dff (the metric) continent country granularity)))))"

section \<open>Grouping and summing\<close>

text \<open>
  \<open>Series.sum()\<close> skips missing values; a column that holds a string or a timestamp is
  not a column of counts, and summing it is a \<open>TypeError\<close> here.
\<close>

fun sum_cells :: "cell list \<Rightarrow> py_error + int" where
  "sum_cells [] = Inr 0"
| "sum_cells (Num i # cs) = and_then (sum_cells cs) (\<lambda>s. Inr (i + s))"
| "sum_cells (NaN # cs) = sum_cells cs"
| "sum_cells (c # cs) = Inl TypeError"

definition getcol :: "string \<Rightarrow> dataframe \<Rightarrow> cell list" where
  "getcol col d = map (\<lambda>r. r col) (rows d)"

text \<open>Running a list of steps in order; the first exception ends the run.\<close>

fun collect :: "('e + 'a) list \<Rightarrow> 'e + 'a list" where
  "collect [] = Inr []"
| "collect (x # xs) = and_then x (\<lambda>v. and_then (collect xs) (\<lambda>vs. Inr (v # vs)))"

text \<open>
  \<open>groupby\<close> sorts the group keys and, by its default \<open>dropna=True\<close>, leaves out every row
  whose key is missing. Keys sort with numbers before strings, strings in code-point
  order.
\<close>

fun cell_key :: "cell \<Rightarrow> nat \<times> int \<times> string" where
  "cell_key (Num i) = (0, i, [])"
| "cell_key (Str s) = (1, 0, s)"
| "cell_key (Date d) = (2, d, [])"
| "cell_key NaN = (3, 0, [])"

definition group_keys :: "string \<Rightarrow> dataframe \<Rightarrow> cell list" where
  "group_keys by d = sort_key cell_key (remdups (filter (\<lambda>k. k \<noteq> NaN) (getcol by d)))"

text \<open>\<open>dff.groupby(by)[metric].sum().reset_index()\<close>: one pair of key and total per group.\<close>

definition groupby_sum :: "string \<Rightarrow> string \<Rightarrow> dataframe \<Rightarrow> py_error + (cell \<times> int) list" where
  "groupby_sum by metric d =
     (if by \<notin> set (columns d) then Inl (KeyError by)
      else if metric \<notin> set (columns d) then Inl (KeyError metric)
      else collect (map (\<lambda>k. and_then
                      (sum_cells (getcol metric (d\<lparr>rows := filter (\<lambda>r. r by = k) (rows d)\<rparr>)))
                      (\<lambda>total. Inr (k, total)))
                    (group_keys by d)))"

text \<open>\<open>dff.groupby(by)[metrics].sum().reset_index()\<close> for a list of metric columns.\<close>

definition groupby_sums ::
  "string \<Rightarrow> string list \<Rightarrow> dataframe \<Rightarrow> py_error + (cell \<times> int list) list" where
  "groupby_sums by ms d =
     (if by \<notin> set (columns d) then Inl (KeyError by)
      else case filter (\<lambda>m. m \<notin> set (columns d)) ms of
        m # _ \<Rightarrow> Inl (KeyError m)
      | [] \<Rightarrow>
        collect (map (\<lambda>k. and_then
                   (collect (map (\<lambda>m.
                      sum_cells (getcol m (d\<lparr>rows := filter (\<lambda>r. r by = k) (rows d)\<rparr>))) ms))
                   (\<lambda>totals. Inr (k, totals)))
                 (group_keys by d)))"

section \<open>Age tab\<close>

text \<open>The charts of the age and geo tabs, each with the table it is drawn from.\<close>

datatype chart = px_bar "(cell \<times> int) list" | px_pie "(cell \<times> int) list"
  | px_choropleth "(cell \<times> int) list"

text \<open>\<open>update_age_tab\<close> (app.py:1862-1921).\<close>

definition update_age_tab ::
  "dataframe \<Rightarrow> string option \<Rightarrow> string option \<Rightarrow> string option \<Rightarrow>
   py_error + (chart figure \<times> chart figure)"
where
  "update_age_tab df metric continent country =
     (if df_empty df \<or> ''age_group'' \<notin> set (columns df) \<or> \<not> in_columns metric df then
        Inr (go_Figure, go_Figure)
      else
        and_then (when_do (continent \<noteq> Some ''all'') (col_eq ''continent'' continent) df) (\<lambda>dff.
        and_then (when_do (country \<noteq> Some ''all'') (col_eq ''country'' country) dff) (\<lambda>dff.
          if df_empty dff then Inr (go_Figure, go_Figure)
          else
            and_then (groupby_sum ''age_group'' (the metric) dff) (\<lambda>bar_df.
              Inr (Plot (px_bar bar_df), Plot (px_pie bar_df))))))"

section \<open>Summary tab\<close>

definition metrics :: "string list" where
  "metrics = [''jobs_placed'', ''scheduled_demos'', ''ai_requests'', ''promotional_events'']"

text \<open>
  \<open>update_summary_tab\<close> (app.py:1946-2035), up to the table of the stacked bar chart
  (line 1983): the filtered frame, the totals of the donut chart, and the grouped table.
  The table is grouped by continent when all continents are shown, by country otherwise.
  For an empty table the callback returns three empty figures and builds no table. The
  drawing of the donut chart in between (lines 1958-1980) is left out here; the whole
  callback follows further down.
\<close>

definition summary_totals :: "dataframe \<Rightarrow> py_error + (string \<times> int) list" where
  "summary_totals dff =
     collect (map (\<lambda>metric. and_then (sum_cells (getcol metric dff)) (\<lambda>t. Inr (metric, t)))
                  (filter (\<lambda>metric. metric \<in> set (columns dff)) metrics))"

definition summary_stacked_df ::
  "dataframe \<Rightarrow> string option \<Rightarrow> string option \<Rightarrow> py_error + (cell \<times> int list) list option"
where
  "summary_stacked_df df continent country =
     (if df_empty df then Inr None
      else
        and_then (when_do (continent \<noteq> Some ''all'') (col_eq ''continent'' continent) df) (\<lambda>dff.
        and_then (when_do (country \<noteq> Some ''all'') (col_eq ''country'' country) dff) (\<lambda>dff.
        and_then (summary_totals dff) (\<lambda>totals.
          let group_by = (if continent = Some ''all'' then ''continent'' else ''country'') in
          and_then (groupby_sums group_by metrics dff) (\<lambda>stacked_df. Inr (Some stacked_df))))))"

section \<open>Geo tab\<close>

definition metric_map :: "(string \<times> string) list" where
  "metric_map = [(''jobs_placed'', ''Jobs Placed''), (''scheduled_demos'', ''Scheduled Demos''),
                 (''ai_requests'', ''AI Requests''), (''promotional_events'', ''Promotional Events'')]"

text \<open>\<open>metric_map.get(metric, metric)\<close>.\<close>

definition metric_label :: "string \<Rightarrow> string" where
  "metric_label metric = (case map_of metric_map metric of Some l \<Rightarrow> l | None \<Rightarrow> metric)"

text \<open>
  \<open>DataFrame.nlargest(n, metric)\<close> and \<open>nsmallest\<close> with the default \<open>keep='first'\<close>: the
  first \<open>n\<close> rows in descending (ascending) order of the value, rows of equal value in
  their original order; no row for \<open>n \<le> 0\<close>, all rows when there are fewer than \<open>n\<close>.
\<close>

definition nlargest :: "int \<Rightarrow> (cell \<times> int) list \<Rightarrow> (cell \<times> int) list" where
  "nlargest n xs = take (nat n) (sort_key (\<lambda>x. - snd x) xs)"

definition nsmallest :: "int \<Rightarrow> (cell \<times> int) list \<Rightarrow> (cell \<times> int) list" where
  "nsmallest n xs = take (nat n) (sort_key snd xs)"

fun is_Str :: "cell \<Rightarrow> bool" where
  "is_Str (Str s) = True"
| "is_Str c = False"

fun str_of :: "cell \<Rightarrow> string" where
  "str_of (Str s) = s"
| "str_of c = []"

text \<open>
  The country dropdown (app.py:1672-1679): the countries of the selected continent,
  sorted, each labelled with \<open>str.title\<close> (a parameter). When one of them is not a string,
  \<open>sorted\<close> or \<open>.title()\<close> raises; which exception it is does not matter here.
\<close>

definition geo_country_options ::
  "(string \<Rightarrow> string) \<Rightarrow> dataframe \<Rightarrow> string option \<Rightarrow> py_error + ((string \<times> string) list \<times> bool)"
where
  "geo_country_options title df continent =
     (if continent = Some ''all'' then Inr ([(''All Countries'', ''all'')], True)
      else
        and_then (col_eq ''continent'' continent df) (\<lambda>sub.
          if ''country'' \<notin> set (columns sub) then Inl (KeyError ''country'')
          else
            let countries_in_continent = remdups (getcol ''country'' sub) in
            if list_all is_Str countries_in_continent then
              Inr ((''All Countries'', ''all'') #
                   map (\<lambda>c. (title c, c)) (sort (map str_of countries_in_continent)), False)
            else Inl TypeError))"

text \<open>The title (app.py:1689-1696); \<open>continent.title()\<close> raises on \<open>None\<close>.\<close>

definition geo_title ::
  "(string \<Rightarrow> string) \<Rightarrow> string \<Rightarrow> string option \<Rightarrow> string option \<Rightarrow> py_error + string" where
  "geo_title title metric continent country =
     (let title_text = metric_label metric @ '' - '' in
      if continent = Some ''all'' then Inr (title_text @ ''Global View'')
      else case continent of
        None \<Rightarrow> Inl AttributeError
      | Some c \<Rightarrow>
          Inr (title_text @ title c @
               (if country \<noteq> Some ''all'' \<and> country \<noteq> None
                then '' ('' @ title (the country) @ '')'' else [])))"

text \<open>
  \<open>update_geo_tab\<close> (app.py:1667-1735): the country options and whether the dropdown is
  disabled, the map, the bar chart of the best or worst countries, and the title.
\<close>

definition update_geo_tab ::
  "(string \<Rightarrow> string) \<Rightarrow> dataframe \<Rightarrow>
   string option \<Rightarrow> string option \<Rightarrow> string option \<Rightarrow> string option \<Rightarrow> int option \<Rightarrow>
   py_error + ((string \<times> string) list \<times> bool \<times> chart figure \<times> chart figure \<times> string)"
where
  "update_geo_tab title df metric continent country performance_type performance_count =
     (if df_empty df \<or> \<not> in_columns metric df then
        Inr ([], True, go_Figure, go_Figure, ''Select a metric'')
      else
        and_then (geo_country_options title df continent) (\<lambda>(country_options, disabled).
        and_then (when_do (continent \<noteq> Some ''all'') (col_eq ''continent'' continent) df) (\<lambda>dff.
        and_then (when_do (country \<noteq> Some ''all'' \<and> country \<noteq> None)
                    (col_eq ''country'' country) dff) (\<lambda>dff.
        and_then (geo_title title (the metric) continent country) (\<lambda>title_text.
        and_then (groupby_sum ''country'' (the metric) dff) (\<lambda>map_df.
        let map_fig = (if map_df \<noteq> [] then Plot (px_choropleth map_df) else go_Figure) in
        and_then (groupby_sum ''country'' (the metric) dff) (\<lambda>countries_df.
        and_then
          (if countries_df \<noteq> [] then
             (case performance_count of
                None \<Rightarrow> Inl TypeError
              | Some n \<Rightarrow>
                  Inr (Plot (px_bar (if performance_type = Some ''top''
                                     then nlargest n countries_df
                                     else nsmallest n countries_df))))
           else Inr go_Figure) (\<lambda>bar_fig.
        Inr (country_options, disabled, map_fig, bar_fig, title_text)))))))))"

section \<open>Overview\<close>

text \<open>
  \<open>Series.idxmax()\<close>: the label of the first largest value; it raises on an empty series.
\<close>

fun idxmax :: "('k \<times> int) list \<Rightarrow> py_error + 'k" where
  "idxmax [] = Inl ValueError"
| "idxmax (x # xs) = Inr (fst (foldl (\<lambda>best a. if snd best < snd a then a else best) x xs))"

text \<open>
  The position of the first largest value of a column, missing values skipped: the
  numbers of the column with their positions, or \<open>TypeError\<close> for a column that does not
  hold numbers.
\<close>

fun numbered :: "nat \<Rightarrow> cell list \<Rightarrow> py_error + (nat \<times> int) list" where
  "numbered i [] = Inr []"
| "numbered i (Num v # cs) = and_then (numbered (Suc i) cs) (\<lambda>xs. Inr ((i, v) # xs))"
| "numbered i (NaN # cs) = numbered (Suc i) cs"
| "numbered i (c # cs) = Inl TypeError"

text \<open>
  The body of the \<open>try\<close> block of \<open>update_overview_content\<close> (app.py:1511-1543). The
  thousands format \<open>f"{x:,}"\<close>, the weekly activity chart (a \<open>groupby\<close> over weeks drawn by
  \<open>px.line\<close>) and \<open>strftime\<close> are parameters. A missing column raises \<open>KeyError\<close>; the peak
  day of a row without a date raises, as \<open>NaT\<close> has no \<open>strftime\<close>.
\<close>

definition overview_body ::
  "(int \<Rightarrow> string) \<Rightarrow> (dataframe \<Rightarrow> py_error + 'p) \<Rightarrow> (int \<Rightarrow> string) \<Rightarrow> dataframe \<Rightarrow>
   py_error + 'p ret"
where
  "overview_body fmt activity_chart strftime df =
     and_then (collect (map (\<lambda>metric.
        if metric \<notin> set (columns df) then Inl (KeyError metric)
        else sum_cells (getcol metric df)) metrics)) (\<lambda>sums.
     let metrics_data = map fmt sums in
     and_then (if ''date'' \<notin> set (columns df) then Inl (KeyError ''date'')
               else activity_chart df) (\<lambda>activity_fig.
     and_then (groupby_sum ''country'' ''jobs_placed'' df) (\<lambda>by_country.
     and_then (idxmax by_country) (\<lambda>top_country.
     and_then (numbered 0 (getcol ''jobs_placed'' df)) (\<lambda>jobs.
     and_then (idxmax jobs) (\<lambda>peak.
     and_then (case (rows df ! peak) ''date'' of
                 Date d \<Rightarrow> Inr (strftime d)
               | NaN \<Rightarrow> Inl ValueError
               | _ \<Rightarrow> Inl AttributeError) (\<lambda>peak_day.
     and_then (idxmax (zip metrics sums)) (\<lambda>best_metric.
       Inr (RTuple (map RStr metrics_data @
                    [RFig (Plot activity_fig), RCell top_country, RStr peak_day,
                     RStr (metric_label best_metric)]))))))))))"

text \<open>
  \<open>update_overview_content\<close> (app.py:1506-1547): the value returned and the exceptions
  written to the log. The \<open>except Exception\<close> clause logs the exception and returns.
\<close>

definition update_overview_content ::
  "(int \<Rightarrow> string) \<Rightarrow> (dataframe \<Rightarrow> py_error + 'p) \<Rightarrow> (int \<Rightarrow> string) \<Rightarrow> dataframe \<Rightarrow>
   pydict option \<Rightarrow> string option \<Rightarrow> 'p ret \<times> py_error list"
where
  "update_overview_content fmt activity_chart strftime df auth active_tab =
     (if df_empty df \<or> active_tab \<noteq> Some ''overview'' then
        (RTuple [RList (replicate 4 (RStr ''0'')), RFig px_line,
                 RStr ''N/A'', RStr ''N/A'', RStr ''N/A''], [])
      else
        case overview_body fmt activity_chart strftime df of
          Inr outputs \<Rightarrow> (outputs, [])
        | Inl e \<Rightarrow>
            (RTuple [RList (replicate 4 (RStr ''0'')), RFig px_line,
                     RStr ''Error'', RStr ''Error'', RStr ''Error''], [e]))"

section \<open>Summary tab, whole callback\<close>

text \<open>
  The frame \<open>groupby(...).sum().reset_index()\<close> yields: the key column followed by the
  metric columns, one row per group.
\<close>

definition frame_of_groups :: "string \<Rightarrow> string list \<Rightarrow> (cell \<times> int list) list \<Rightarrow> dataframe" where
  "frame_of_groups by ms groups =
     \<lparr>columns = by # ms,
      rows = map (\<lambda>(k, totals). (\<lambda>c. if c = by then k
                                      else case map_of (zip ms totals) c of
                                             Some t \<Rightarrow> Num t | None \<Rightarrow> NaN)) groups\<rparr>"

text \<open>
  \<open>update_summary_tab\<close> (app.py:1946-2035). The plotting calls are parameters: \<open>donut\<close>
  draws the totals, \<open>stacked_bar\<close> the grouped table, \<open>trend\<close> resamples the filtered frame
  by month and draws it. \<open>percentage\<close> is the frame that the floating-point assignment
  \<open>stacked_df[metrics] = stacked_df[metrics].div(...)*100\<close> leaves in \<open>stacked_df\<close>.
\<close>

definition update_summary_tab ::
  "((string \<times> int) list \<Rightarrow> py_error + 'p) \<Rightarrow> (dataframe \<Rightarrow> dataframe) \<Rightarrow>
   (dataframe \<Rightarrow> string \<Rightarrow> string option \<Rightarrow> py_error + 'p) \<Rightarrow> (dataframe \<Rightarrow> py_error + 'p) \<Rightarrow>
   dataframe \<Rightarrow> string option \<Rightarrow> string option \<Rightarrow> string option \<Rightarrow>
   py_error + ('p figure \<times> 'p figure \<times> 'p figure)"
where
  "update_summary_tab donut percentage stacked_bar trend df continent country view_type =
     (if df_empty df then Inr (go_Figure, go_Figure, go_Figure)
      else
        and_then (when_do (continent \<noteq> Some ''all'') (col_eq ''continent'' continent) df) (\<lambda>dff.
        and_then (when_do (country \<noteq> Some ''all'') (col_eq ''country'' country) dff) (\<lambda>dff.
        and_then (summary_totals dff) (\<lambda>totals.
        and_then (donut totals) (\<lambda>donut_fig.
        let group_by = (if continent = Some ''all'' then ''continent'' else ''country'') in
        and_then (groupby_sums group_by metrics dff) (\<lambda>groups.
        let stacked_df = frame_of_groups group_by metrics groups;
            stacked_df = (if view_type = Some ''percentage'' then percentage stacked_df
                          else stacked_df) in
        and_then (stacked_bar stacked_df group_by view_type) (\<lambda>stacked_fig.
        and_then (trend dff) (\<lambda>trend_fig.
          Inr (Plot donut_fig, Plot stacked_fig, Plot trend_fig)))))))))"

section \<open>The callbacks on a store of objects\<close>

text \<open>
  Python names refer to objects. To see which object a callback writes, the callbacks
  are modelled once more on a store: \<open>objs\<close> gives the frame held at each address, and
  \<open>next_addr\<close> is the first address not yet in use. The module-level \<open>df\<close> lives at an
  address \<open>df_addr\<close>. \<open>df.copy()\<close>, a boolean-mask selection \<open>dff[mask]\<close> and a column
  selection \<open>dff[[...]]\<close> each return a new object, and so does
  \<open>groupby(...).sum().reset_index()\<close>. The only in-place assignment of the callbacks is
  \<open>stacked_df[metrics] = ...\<close> in the summary tab, so of the grouped tables \<open>stacked_df\<close>
  is given an address; values that are only read (sums, the other grouped tables,
  figures) are not.
\<close>

record store =
  objs :: "nat \<Rightarrow> dataframe"
  next_addr :: nat

type_synonym 'r prog = "store \<Rightarrow> (py_error + 'r) \<times> store"

definition ret :: "'r \<Rightarrow> 'r prog" where
  "ret v h = (Inr v, h)"

text \<open>A computation on values that may raise, then the rest of the callback.\<close>

definition lift :: "py_error + 'a \<Rightarrow> ('a \<Rightarrow> 'r prog) \<Rightarrow> 'r prog" where
  "lift m k h = (case m of Inl e \<Rightarrow> (Inl e, h) | Inr v \<Rightarrow> k v h)"

text \<open>Reading the object a name refers to.\<close>

definition load :: "nat \<Rightarrow> (dataframe \<Rightarrow> 'r prog) \<Rightarrow> 'r prog" where
  "load a k h = k (objs h a) h"

text \<open>A new object; the rest of the callback gets its address.\<close>

definition new_obj :: "dataframe \<Rightarrow> (nat \<Rightarrow> 'r prog) \<Rightarrow> 'r prog" where
  "new_obj d k h =
     k (next_addr h) (h\<lparr>objs := (objs h)(next_addr h := d), next_addr := Suc (next_addr h)\<rparr>)"

text \<open>An in-place assignment to the object at an address.\<close>

definition store_obj :: "nat \<Rightarrow> dataframe \<Rightarrow> 'r prog \<Rightarrow> 'r prog" where
  "store_obj a d k h = k (h\<lparr>objs := (objs h)(a := d)\<rparr>)"

text \<open>\<open>if cond: dff = step(dff)\<close>, where the step returns a new object.\<close>

definition derive_if ::
  "bool \<Rightarrow> (dataframe \<Rightarrow> py_error + dataframe) \<Rightarrow> nat \<Rightarrow> (nat \<Rightarrow> 'r prog) \<Rightarrow> 'r prog" where
  "derive_if cond step dff k =
     (if cond then load dff (\<lambda>d. lift (step d) (\<lambda>d'. new_obj d' k)) else k dff)"

text \<open>\<open>if cond: obj[...] = ...\<close>, an assignment into the object itself.\<close>

definition assign_if :: "bool \<Rightarrow> nat \<Rightarrow> (dataframe \<Rightarrow> dataframe) \<Rightarrow> 'r prog \<Rightarrow> 'r prog" where
  "assign_if cond a f k = (if cond then load a (\<lambda>s. store_obj a (f s) k) else k)"

definition run_update_analytics_tab ::
  "(dataframe \<Rightarrow> string \<Rightarrow> py_error + 'p ret) \<Rightarrow> (string \<Rightarrow> py_error + int) \<Rightarrow> nat \<Rightarrow>
   string option \<Rightarrow> string option \<Rightarrow> string option \<Rightarrow> string option \<Rightarrow> 'p ret prog"
where
  "run_update_analytics_tab analytics_outputs to_datetime df_addr start_date end_date metric
       continent =
     load df_addr (\<lambda>df.
       if df_empty df \<or> \<not> in_columns metric df then
         ret (RTuple [RList (replicate 5 (RStr ''N/A'')),
                      RFig go_Figure, RFig go_Figure, RFig go_Figure])
       else
         new_obj df (\<lambda>dff.
         derive_if (truthy start_date) (date_ge to_datetime start_date) dff (\<lambda>dff.
         derive_if (truthy end_date) (date_le to_datetime end_date) dff (\<lambda>dff.
         derive_if (continent \<noteq> Some ''all'') (col_eq ''continent'' continent) dff (\<lambda>dff.
         load dff (\<lambda>d.
           if df_empty d then
             ret (RTuple [RList (replicate 5 (RStr ''No data'')),
                          RFig go_Figure, RFig go_Figure, RFig go_Figure])
           else lift (analytics_outputs d (the metric)) ret))))))"

definition run_update_time_tab ::
  "(dataframe \<Rightarrow> string \<Rightarrow> string option \<Rightarrow> string option \<Rightarrow> string option \<Rightarrow> py_error + 'p ret) \<Rightarrow>
   (string \<Rightarrow> py_error + int) \<Rightarrow> nat \<Rightarrow>
   string option \<Rightarrow> string option \<Rightarrow> string option \<Rightarrow> string option \<Rightarrow> string option \<Rightarrow>
   string option \<Rightarrow> 'p ret prog"
where
  "run_update_time_tab time_outputs to_datetime df_addr start_date end_date metric continent
       country granularity =
     load df_addr (\<lambda>df.
       if df_empty df \<or> \<not> in_columns metric df then
         ret (RTuple [RFig go_Figure, RStr ''Select a metric''])
       else
         new_obj df (\<lambda>dff.
         derive_if (truthy start_date) (date_ge to_datetime start_date) dff (\<lambda>dff.
         derive_if (truthy end_date) (date_le to_datetime end_date) dff (\<lambda>dff.
         derive_if (continent \<noteq> Some ''all'') (col_eq ''continent'' continent) dff (\<lambda>dff.
         derive_if (country \<noteq> Some ''all'') (col_eq ''country'' country) dff (\<lambda>dff.
         load dff (\<lambda>d.
           if df_empty d then
             ret (RTuple [RFig go_Figure, RStr ''No data available for selected filters''])
           else lift (time_outputs d (the metric) continent country granularity) ret)))))))"

definition run_update_age_tab ::
  "nat \<Rightarrow> string option \<Rightarrow> string option \<Rightarrow> string option \<Rightarrow>
   (chart figure \<times> chart figure) prog"
where
  "run_update_age_tab df_addr metric continent country =
     load df_addr (\<lambda>df.
       if df_empty df \<or> ''age_group'' \<notin> set (columns df) \<or> \<not> in_columns metric df then
         ret (go_Figure, go_Figure)
       else
         new_obj df (\<lambda>dff.
         derive_if (continent \<noteq> Some ''all'') (col_eq ''continent'' continent) dff (\<lambda>dff.
         derive_if (country \<noteq> Some ''all'') (col_eq ''country'' country) dff (\<lambda>dff.
         load dff (\<lambda>d.
           if df_empty d then ret (go_Figure, go_Figure)
           else
             lift (groupby_sum ''age_group'' (the metric) d) (\<lambda>bar_df.
               ret (Plot (px_bar bar_df), Plot (px_pie bar_df))))))))"

definition run_update_summary_tab ::
  "((string \<times> int) list \<Rightarrow> py_error + 'p) \<Rightarrow> (dataframe \<Rightarrow> dataframe) \<Rightarrow>
   (dataframe \<Rightarrow> string \<Rightarrow> string option \<Rightarrow> py_error + 'p) \<Rightarrow> (dataframe \<Rightarrow> py_error + 'p) \<Rightarrow>
   nat \<Rightarrow> string option \<Rightarrow> string option \<Rightarrow> string option \<Rightarrow>
   ('p figure \<times> 'p figure \<times> 'p figure) prog"
where
  "run_update_summary_tab donut percentage stacked_bar trend df_addr continent country view_type =
     load df_addr (\<lambda>df.
       if df_empty df then ret (go_Figure, go_Figure, go_Figure)
       else
         new_obj df (\<lambda>dff.
         derive_if (continent \<noteq> Some ''all'') (col_eq ''continent'' continent) dff (\<lambda>dff.
         derive_if (country \<noteq> Some ''all'') (col_eq ''country'' country) dff (\<lambda>dff.
         load dff (\<lambda>d.
         lift (summary_totals d) (\<lambda>totals.
         lift (donut totals) (\<lambda>donut_fig.
         let group_by = (if continent = Some ''all'' then ''continent'' else ''country'') in
         lift (groupby_sums group_by metrics d) (\<lambda>groups.
         new_obj (frame_of_groups group_by metrics groups) (\<lambda>stacked_df.
         assign_if (view_type = Some ''percentage'') stacked_df percentage
         (load stacked_df (\<lambda>s.
          lift (stacked_bar s group_by view_type) (\<lambda>stacked_fig.
          lift (trend d) (\<lambda>trend_fig.
            ret (Plot donut_fig, Plot stacked_fig, Plot trend_fig))))))))))))))"

definition run_update_geo_tab ::
  "(string \<Rightarrow> string) \<Rightarrow> nat \<Rightarrow>
   string option \<Rightarrow> string option \<Rightarrow> string option \<Rightarrow> string option \<Rightarrow> int option \<Rightarrow>
   ((string \<times> string) list \<times> bool \<times> chart figure \<times> chart figure \<times> string) prog"
where
  "run_update_geo_tab title df_addr metric continent country performance_type performance_count =
     load df_addr (\<lambda>df.
       if df_empty df \<or> \<not> in_columns metric df then
         ret ([], True, go_Figure, go_Figure, ''Select a metric'')
       else
         lift (geo_country_options title df continent) (\<lambda>(country_options, disabled).
         new_obj df (\<lambda>dff.
         derive_if (continent \<noteq> Some ''all'') (col_eq ''continent'' continent) dff (\<lambda>dff.
         derive_if (country \<noteq> Some ''all'' \<and> country \<noteq> None)
           (col_eq ''country'' country) dff (\<lambda>dff.
         load dff (\<lambda>d.
         lift (geo_title title (the metric) continent country) (\<lambda>title_text.
         lift (groupby_sum ''country'' (the metric) d) (\<lambda>map_df.
         let map_fig = (if map_df \<noteq> [] then Plot (px_choropleth map_df) else go_Figure) in
         lift (groupby_sum ''country'' (the metric) d) (\<lambda>countries_df.
         lift
          (if countries_df \<noteq> [] then
             (case performance_count of
                None \<Rightarrow> Inl TypeError
              | Some n \<Rightarrow>
                  Inr (Plot (px_bar (if performance_type = Some ''top''
                                     then nlargest n countries_df
                                     else nsmallest n countries_df))))
           else Inr go_Figure) (\<lambda>bar_fig.
         ret (country_options, disabled, map_fig, bar_fig, title_text)))))))))))"

definition run_update_export_preview ::
  "(string \<Rightarrow> py_error + int) \<Rightarrow> nat \<Rightarrow>
   string option \<Rightarrow> string option \<Rightarrow> string option \<Rightarrow> string option \<Rightarrow>
   ((string \<times> cell) list list \<times> string) prog"
where
  "run_update_export_preview to_datetime df_addr start_date end_date metric continent =
     load df_addr (\<lambda>df.
       if df_empty df then ret ([], ''No data available'')
       else
         new_obj df (\<lambda>dff.
         derive_if (truthy start_date) (date_ge to_datetime start_date) dff (\<lambda>dff.
         derive_if (truthy end_date) (date_le to_datetime end_date) dff (\<lambda>dff.
         derive_if (continent \<noteq> Some ''all'') (col_eq ''continent'' continent) dff (\<lambda>dff.
         derive_if (metric \<noteq> Some ''all'')
           (\<lambda>d. Inr (select_columns (columns_to_keep metric) d)) dff (\<lambda>dff.
         load dff (\<lambda>d.
           let filters_applied = (start_date \<noteq> None \<or> end_date \<noteq> None \<or>
                                  continent \<noteq> Some ''all'' \<or> metric \<noteq> Some ''all'');
               header_text = (if filters_applied then ''Filtered Dataset Preview''
                              else ''Dataset Preview (First 10 rows)'')
           in ret (to_records (head 10 d), header_text))))))))"

text \<open>
  The overview reads \<open>df\<close> itself; it never raises, so its value and log are returned as
  they are.
\<close>

definition run_update_overview_content ::
  "(int \<Rightarrow> string) \<Rightarrow> (dataframe \<Rightarrow> py_error + 'p) \<Rightarrow> (int \<Rightarrow> string) \<Rightarrow> nat \<Rightarrow>
   pydict option \<Rightarrow> string option \<Rightarrow> ('p ret \<times> py_error list) prog"
where
  "run_update_overview_content fmt activity_chart strftime df_addr auth active_tab =
     load df_addr (\<lambda>df.
       ret (update_overview_content fmt activity_chart strftime df auth active_tab))"

section \<open>Notions used in the statements and proofs\<close>

text \<open>
  A row survives the filters of a tab: its date is within the bounds that are set, and
  its continent (and country, in the time tab) is the selected one unless that is \<open>all\<close>.
\<close>

definition survives ::
  "bool \<Rightarrow> int \<Rightarrow> bool \<Rightarrow> int \<Rightarrow> string option \<Rightarrow> string option \<Rightarrow> (string \<Rightarrow> cell) \<Rightarrow> bool" where
  "survives has_lo lo has_hi hi continent country r =
     ((\<not> has_lo \<or> (\<exists>d. r ''date'' = Date d \<and> lo \<le> d)) \<and>
      (\<not> has_hi \<or> (\<exists>d. r ''date'' = Date d \<and> d \<le> hi)) \<and>
      (continent = Some ''all'' \<or> (\<exists>k. continent = Some k \<and> r ''continent'' = Str k)) \<and>
      (country = Some ''all'' \<or> (\<exists>k. country = Some k \<and> r ''country'' = Str k)))"

text \<open>The continent and country filters alone, as the age and summary tabs apply them.\<close>

abbreviation in_region :: "string option \<Rightarrow> string option \<Rightarrow> (string \<Rightarrow> cell) \<Rightarrow> bool" where
  "in_region \<equiv> survives False 0 False 0"


text \<open>
  The strings, cells and figures a returned value carries, in order, whatever the nesting
  of lists and tuples around them.
\<close>

fun leaves :: "'p ret \<Rightarrow> 'p ret list" where
  "leaves (RTuple xs) = concat (map leaves xs)"
| "leaves (RList xs) = concat (map leaves xs)"
| "leaves v = [v]"

text \<open>A cell that \<open>sum\<close> accepts, and the number it contributes (a missing value adds nothing).\<close>

definition summable :: "cell \<Rightarrow> bool" where
  "summable c = (case c of Num i \<Rightarrow> True | NaN \<Rightarrow> True | _ \<Rightarrow> False)"

definition cell_int :: "cell \<Rightarrow> int" where
  "cell_int c = (case c of Num i \<Rightarrow> i | _ \<Rightarrow> 0)"

text \<open>
  What is asked of a callback \<open>p\<close> run on a store that holds the loaded table at \<open>a\<close>: the
  call leaves the object at \<open>a\<close> as it was; calling again returns the same result; and
  the result is the same in every store that holds the same table at \<open>a\<close>.
\<close>

definition pure_callback :: "nat \<Rightarrow> 'r prog \<Rightarrow> bool" where
  "pure_callback a p =
     (\<forall>h. a < next_addr h \<longrightarrow>
        objs (snd (p h)) a = objs h a \<and>
        a < next_addr (snd (p h)) \<and>
        fst (p (snd (p h))) = fst (p h) \<and>
        (\<forall>h'. a < next_addr h' \<and> objs h' a = objs h a \<longrightarrow> fst (p h') = fst (p h)))"

text \<open>
  A callback \<open>p\<close> computes the function \<open>f\<close> of the table at \<open>a\<close> and leaves that table
  alone; and the same for a rest-of-callback \<open>k\<close> that is handed the address of the
  current frame.
\<close>

definition implements :: "nat \<Rightarrow> 'r prog \<Rightarrow> (dataframe \<Rightarrow> py_error + 'r) \<Rightarrow> bool" where
  "implements a p f =
     (\<forall>h. a < next_addr h \<longrightarrow>
        fst (p h) = f (objs h a) \<and> objs (snd (p h)) a = objs h a \<and>
        next_addr h \<le> next_addr (snd (p h)))"

definition stage :: "nat \<Rightarrow> (nat \<Rightarrow> 'r prog) \<Rightarrow> (dataframe \<Rightarrow> py_error + 'r) \<Rightarrow> bool" where
  "stage a k f =
     (\<forall>h x. a < next_addr h \<and> x < next_addr h \<longrightarrow>
        fst (k x h) = f (objs h x) \<and> objs (snd (k x h)) a = objs h a \<and>
        next_addr h \<le> next_addr (snd (k x h)))"

text \<open>
  The outputs the analytics callback declares in its decorator (app.py:1549-1557), each a
  component id with a property; and the number of values a returned list or tuple
  holds, of which Dash gives one to each declared output.
\<close>

definition analytics_declared_outputs :: "(string \<times> string) list" where
  "analytics_declared_outputs =
     [(''analytics-total'', ''children''), (''analytics-avg'', ''children''),
      (''analytics-max'', ''children''), (''analytics-min'', ''children''),
      (''analytics-std'', ''children''), (''analytics-gauge-1'', ''figure''),
      (''analytics-gauge-2'', ''figure''), (''analytics-heatmap'', ''figure'')]"

fun n_values :: "'p ret \<Rightarrow> nat" where
  "n_values (RTuple xs) = length xs"
| "n_values (RList xs) = length xs"
| "n_values v = 1"

section \<open>A small table\<close>

text \<open>
  Three rows in the layout of \<open>test_dataPD.csv\<close>, used to run the model on concrete input.
  The second row has no age group and no continent.
\<close>

definition mk_row :: "cell \<Rightarrow> cell \<Rightarrow> cell \<Rightarrow> cell \<Rightarrow> int \<Rightarrow> int \<Rightarrow> int \<Rightarrow> int \<Rightarrow> string \<Rightarrow> cell" where
  "mk_row d country continent age_group jp sd ai pe =
     (\<lambda>c. if c = ''date'' then d
          else if c = ''country'' then country
          else if c = ''continent'' then continent
          else if c = ''age_group'' then age_group
          else if c = ''jobs_placed'' then Num jp
          else if c = ''scheduled_demos'' then Num sd
          else if c = ''ai_requests'' then Num ai
          else if c = ''promotional_events'' then Num pe
          else NaN)"

definition sample_columns :: "string list" where
  "sample_columns = [''date'', ''country'', ''continent'', ''jobs_placed'', ''scheduled_demos'',
     ''ai_requests'', ''promotional_events'', ''age_group'']"

definition sample_df :: dataframe where
  "sample_df = \<lparr>columns = sample_columns,
     rows = [mk_row (Date 1) (Str ''india'') (Str ''asia'') (Str ''18-25'') 5 1 0 2,
             mk_row (Date 2) (Str ''kenya'') NaN NaN 7 0 3 0,
             mk_row (Date 3) (Str ''japan'') (Str ''asia'') (Str ''26-35'') 4 2 2 1]\<rparr>"

text \<open>A loaded table that lacks the metric columns (\<open>load_data\<close> only warns about them).\<close>

definition sample_no_metrics :: dataframe where
  "sample_no_metrics = \<lparr>columns = [''date'', ''country'', ''continent''],
     rows = [mk_row (Date 1) (Str ''india'') (Str ''asia'') NaN 0 0 0 0]\<rparr>"

text \<open>A stand-in for \<open>pd.to_datetime\<close> on day strings: three days are known, the rest raise.\<close>

definition sample_to_datetime :: "string \<Rightarrow> py_error + int" where
  "sample_to_datetime s =
     (if s = ''2024-01-01'' then Inr 1 else if s = ''2024-01-02'' then Inr 2
      else if s = ''2024-01-03'' then Inr 3 else Inl ValueError)"

section \<open>Properties of the credential check\<close>

lemma filter_hd_first:
  assumes "filter P xs \<noteq> []"
  shows "\<exists>i < length xs. P (xs ! i) \<and> (\<forall>j < i. \<not> P (xs ! j)) \<and> hd (filter P xs) = xs ! i"
  using assms
proof (induction xs)
  case Nil
  then show ?case by simp
next
  case (Cons x xs)
  show ?case
  proof (cases "P x")
    case True
    then show ?thesis by (intro exI [of _ 0]) simp
  next
    case False
    with Cons obtain i where i: "i < length xs" "P (xs ! i)" "\<forall>j < i. \<not> P (xs ! j)"
      "hd (filter P xs) = xs ! i" by auto
    show ?thesis
    proof (intro exI [of _ "Suc i"] conjI allI impI)
      fix j assume "j < Suc i"
      then show "\<not> P ((x # xs) ! j)" using False i(3) by (cases j) auto
    qed (use i False in auto)
  qed
qed

lemma first_match_unique:
  assumes "i < length xs" "P (xs ! i)" "\<forall>j < i. \<not> P (xs ! j)"
  shows "hd (filter P xs) = xs ! i"
  using assms
proof (induction xs arbitrary: i)
  case Nil
  then show ?case by simp
next
  case (Cons x xs)
  show ?case
  proof (cases i)
    case 0
    with Cons.prems show ?thesis by simp
  next
    case (Suc k)
    with Cons.prems have "\<not> P x" by auto
    moreover have "hd (filter P xs) = xs ! k"
      using Cons.prems Suc by (intro Cons.IH) auto
    ultimately show ?thesis using Suc by simp
  qed
qed

text \<open>
  C1. \<open>verify_user\<close> answers true exactly when username and password are both non-empty,
  some row of the user table carries exactly that username, and \<open>bcrypt\<close> accepts the
  password against the hash stored in the first such row; in every other case (empty or
  missing input, unknown username, a hash on which \<open>checkpw\<close> raises, a password that does
  not match) it answers false. It is a total boolean function: no case raises.
\<close>

theorem verify_user_iff:
  "verify_user checkpw users_df uname pw \<longleftrightarrow>
     (\<exists>u p. uname = Some u \<and> u \<noteq> [] \<and> pw = Some p \<and> p \<noteq> [] \<and>
        (\<exists>i < length users_df.
           username (users_df ! i) = Str u \<and>
           (\<forall>j < i. username (users_df ! j) \<noteq> Str u) \<and>
           checkpw p (password_hash (users_df ! i)) = Inr True))"
  (is "?L \<longleftrightarrow> ?R")
proof
  assume L: ?L
  then obtain u p where up: "uname = Some u" "u \<noteq> []" "pw = Some p" "p \<noteq> []"
    by (auto simp: verify_user_def truthy_def split: option.splits if_splits)
  let ?P = "\<lambda>r. username r = Str u"
  from L up have ne: "filter ?P users_df \<noteq> []"
    and ok: "checkpw p (password_hash (hd (filter ?P users_df))) = Inr True"
    by (auto simp: verify_user_def truthy_def cell_eq_def Let_def split: if_splits sum.splits)
  from filter_hd_first [OF ne] obtain i where
    "i < length users_df" "?P (users_df ! i)" "\<forall>j < i. \<not> ?P (users_df ! j)"
    "hd (filter ?P users_df) = users_df ! i" by blast
  with ok up show ?R by auto
next
  assume ?R
  then obtain u p i where up: "uname = Some u" "u \<noteq> []" "pw = Some p" "p \<noteq> []"
    and i: "i < length users_df" "username (users_df ! i) = Str u"
      "\<forall>j < i. username (users_df ! j) \<noteq> Str u"
    and ok: "checkpw p (password_hash (users_df ! i)) = Inr True" by blast
  let ?P = "\<lambda>r. username r = Str u"
  have hd: "hd (filter ?P users_df) = users_df ! i"
    using i by (intro first_match_unique) auto
  have ne: "filter ?P users_df \<noteq> []"
    using i by (auto simp: filter_empty_conv)
  show ?L using up hd ne ok
    by (simp add: verify_user_def truthy_def cell_eq_def Let_def)
qed

theorem verify_user_iff_witness:
  "verify_user (\<lambda>p h. if h = ''$2b$ok'' then Inr (p = ''password1'') else Inl ValueError)
     [\<lparr>username = Str ''marketer1'', password_hash = ''bad'', role = Str ''marketer''\<rparr>,
      \<lparr>username = Str ''analyst1'', password_hash = ''$2b$ok'', role = Str ''analyst''\<rparr>]
     (Some ''analyst1'') (Some ''password1'')"
proof -
  let ?ck = "\<lambda>p h. if h = ''$2b$ok'' then Inr (p = ''password1'') else Inl ValueError"
  let ?us = "[\<lparr>username = Str ''marketer1'', password_hash = ''bad'', role = Str ''marketer''\<rparr>,
      \<lparr>username = Str ''analyst1'', password_hash = ''$2b$ok'', role = Str ''analyst''\<rparr>]"
  have "\<exists>i < length ?us. username (?us ! i) = Str ''analyst1'' \<and>
          (\<forall>j < i. username (?us ! j) \<noteq> Str ''analyst1'') \<and>
          ?ck ''password1'' (password_hash (?us ! i)) = Inr True"
    by (intro exI [of _ 1]) (simp add: less_Suc_eq)
  then show ?thesis
    unfolding verify_user_iff [of ?ck ?us "Some ''analyst1''" "Some ''password1''"]
    by (intro exI [of _ "''analyst1''"] exI [of _ "''password1''"]) simp
qed

section \<open>Properties of the login callback\<close>

lemma verify_user_truthy:
  "verify_user checkpw users_df uname pw \<Longrightarrow> truthy uname \<and> truthy pw"
  by (auto simp: verify_user_def split: if_splits)

text \<open>
  C10. A failed login never changes the stored authentication state: when the username or
  the password is missing, or \<open>verify_user\<close> answers false, \<open>login\<close> returns
  \<open>dash.no_update\<close> for the \<open>session-auth\<close> store, so the store keeps its value, together
  with an error message. Only a successful verification returns a new record, and that
  record has \<open>authenticated\<close> set to true, the username, and the session id drawn by this
  call.
\<close>

theorem login_failed_no_update:
  "(\<not> truthy uname \<or> \<not> truthy pw \<or> \<not> verify_user checkpw users_df uname pw \<longrightarrow>
      fst (login checkpw users_df uuid4 n_clicks uname pw remember) = no_update \<and>
      apply_output store (fst (login checkpw users_df uuid4 n_clicks uname pw remember)) = store \<and>
      snd (login checkpw users_df uuid4 n_clicks uname pw remember) \<noteq> []) \<and>
   (fst (login checkpw users_df uuid4 n_clicks uname pw remember) \<noteq> no_update \<longleftrightarrow>
      verify_user checkpw users_df uname pw) \<and>
   (verify_user checkpw users_df uname pw \<longrightarrow>
      (\<exists>u d. uname = Some u \<and>
         login checkpw users_df uuid4 n_clicks uname pw remember = (Set d, []) \<and>
         map_of d ''authenticated'' = Some (PBool True) \<and>
         map_of d ''user'' = Some (PStr u) \<and>
         map_of d ''session_id'' = Some (PStr uuid4)))"
proof (cases "verify_user checkpw users_df uname pw")
  case True
  from verify_user_truthy [OF True] obtain u where u: "uname = Some u" "truthy uname" "truthy pw"
    by (auto simp: truthy_def split: option.splits)
  show ?thesis
    using True u by (simp add: login_def Let_def py_str_def apply_output_def)
next
  case False
  then show ?thesis
    by (simp add: login_def apply_output_def)
qed

theorem login_failed_no_update_witness:
  "login (\<lambda>p h. Inr (p = ''password1'' \<and> h = ''$2b$ok''))
     [\<lparr>username = Str ''analyst1'', password_hash = ''$2b$ok'', role = Str ''analyst''\<rparr>]
     ''0f6a'' (Some 1) (Some ''analyst1'') (Some ''wrong'') None
     = (no_update, ''Invalid username or password.'') \<and>
   apply_output (Some [(''authenticated'', PBool False), (''user'', PNone)])
     (fst (login (\<lambda>p h. Inr (p = ''password1'' \<and> h = ''$2b$ok''))
       [\<lparr>username = Str ''analyst1'', password_hash = ''$2b$ok'', role = Str ''analyst''\<rparr>]
       ''0f6a'' (Some 1) (Some ''analyst1'') (Some ''wrong'') None))
     = Some [(''authenticated'', PBool False), (''user'', PNone)] \<and>
   fst (login (\<lambda>p h. Inr (p = ''password1'' \<and> h = ''$2b$ok''))
     [\<lparr>username = Str ''analyst1'', password_hash = ''$2b$ok'', role = Str ''analyst''\<rparr>]
     ''0f6a'' (Some 1) (Some ''analyst1'') (Some ''password1'') None)
     = Set [(''authenticated'', PBool True), (''user'', PStr ''analyst1''),
            (''session_id'', PStr ''0f6a'')]"
proof -
  let ?ck = "\<lambda>p h. Inr (p = ''password1'' \<and> h = ''$2b$ok'') :: py_error + bool"
  let ?us = "[\<lparr>username = Str ''analyst1'', password_hash = ''$2b$ok'', role = Str ''analyst''\<rparr>]"
  have bad: "\<not> verify_user ?ck ?us (Some ''analyst1'') (Some ''wrong'')"
    by (simp add: verify_user_def truthy_def cell_eq_def)
  have good: "verify_user ?ck ?us (Some ''analyst1'') (Some ''password1'')"
    by (simp add: verify_user_def truthy_def cell_eq_def)
  have 1: "apply_output (Some [(''authenticated'', PBool False), (''user'', PNone)])
      (fst (login ?ck ?us ''0f6a'' (Some 1) (Some ''analyst1'') (Some ''wrong'') None))
      = Some [(''authenticated'', PBool False), (''user'', PNone)]"
    using bad login_failed_no_update [of "Some ''analyst1''" "Some ''wrong''" ?ck ?us
        "''0f6a''" "Some 1" None "Some [(''authenticated'', PBool False), (''user'', PNone)]"]
    by blast
  have 2: "login ?ck ?us ''0f6a'' (Some 1) (Some ''analyst1'') (Some ''wrong'') None
      = (no_update, ''Invalid username or password.'')"
    using bad by (simp add: login_def truthy_def)
  have 3: "fst (login ?ck ?us ''0f6a'' (Some 1) (Some ''analyst1'') (Some ''password1'') None)
     = Set [(''authenticated'', PBool True), (''user'', PStr ''analyst1''),
            (''session_id'', PStr ''0f6a'')]"
    using good by (simp add: login_def truthy_def truthy_list_def py_str_def)
  show ?thesis using 1 2 3 by simp
qed

section \<open>Properties of the export callbacks\<close>

lemma and_then_Inr:
  "and_then m f = Inr y \<longleftrightarrow> (\<exists>x. m = Inr x \<and> f x = Inr y)"
  by (cases m) (simp_all add: and_then_def)

lemma ge_ts_iff: "ge_ts t c \<longleftrightarrow> (\<exists>d. c = Date d \<and> t \<le> d)"
  by (cases c) (simp_all add: ge_ts_def)

lemma le_ts_iff: "le_ts t c \<longleftrightarrow> (\<exists>d. c = Date d \<and> d \<le> t)"
  by (cases c) (simp_all add: le_ts_def)

lemma cell_eq_iff: "cell_eq c v \<longleftrightarrow> (\<exists>s. v = Some s \<and> c = Str s)"
  by (cases v) (simp_all add: cell_eq_def)



lemma when_col_eq:
  assumes "when_do (v \<noteq> Some ''all'') (col_eq col v) d = Inr d1"
  shows "columns d1 = columns d \<and>
         rows d1 = filter (\<lambda>r. v \<noteq> Some ''all'' \<longrightarrow> cell_eq (r col) v) (rows d)"
  using assms by (auto simp: when_do_def col_eq_def split: if_splits)



lemma download_csv_steps:
  assumes "download_csv td df n s e m c = Inr (Some out)"
  shows "\<not> df_empty df \<and> (\<exists>d1 d2 d3 d4.
      when_do (truthy s) (date_ge td s) df = Inr d1 \<and>
      when_do (truthy e) (date_le td e) d1 = Inr d2 \<and>
      when_do (c \<noteq> Some ''all'') (col_eq ''continent'' c) d2 = Inr d3 \<and>
      when_do (m \<noteq> Some ''all'')
             (\<lambda>dff. Inr (select_columns (columns_to_keep m) dff)) d3
        = (Inr d4 :: py_error + dataframe) \<and>
      out = to_csv d4)"
proof -
  from assms have ne: "\<not> df_empty df"
    by (auto simp: download_csv_def split: if_splits)
  with assms show ?thesis
    unfolding download_csv_def by (auto simp: and_then_Inr)
qed


lemma sample_download:
  "download_csv sample_to_datetime sample_df (Some 1) (Some ''2024-01-02'') None
     (Some ''jobs_placed'') (Some ''asia'')
   = Inr (Some ([''date'', ''country'', ''continent'', ''age_group'', ''jobs_placed''],
                [[Date 3, Str ''japan'', Str ''asia'', Str ''26-35'', Num 4]]))"
  by (simp add: download_csv_def sample_df_def sample_columns_def sample_to_datetime_def
      mk_row_def df_empty_def and_then_def when_do_def truthy_def date_ge_def ge_ts_def
      col_eq_def cell_eq_def select_columns_def columns_to_keep_def to_csv_def)


lemma to_records_head:
  "to_records (head n d) = map (zip (fst (to_csv d))) (take n (snd (to_csv d)))"
  by (simp add: to_records_def head_def to_csv_def take_map zip_map2 zip_same_conv_map)

text \<open>
  C9. For the same start date, end date, metric and continent, whenever \<open>download_csv\<close>
  exports a table, the export preview shows exactly its first ten records (each record
  paired with the header's column names): both callbacks apply the same date, continent
  and column steps to the loaded table.
\<close>

theorem preview_is_head_of_export:
  assumes "download_csv to_datetime df n_clicks start_date end_date metric continent
             = Inr (Some (header, records))"
  shows "\<exists>header_text.
           update_export_preview to_datetime df start_date end_date metric continent
             = Inr (map (zip header) (take 10 records), header_text)"
proof -
  from download_csv_steps [OF assms] obtain d1 d2 d3 d4 where ne: "\<not> df_empty df" and
    st: "when_do (truthy start_date) (date_ge to_datetime start_date) df = Inr d1"
      "when_do (truthy end_date) (date_le to_datetime end_date) d1 = Inr d2"
      "when_do (continent \<noteq> Some ''all'') (col_eq ''continent'' continent) d2 = Inr d3"
      "when_do (metric \<noteq> Some ''all'')
             (\<lambda>dff. Inr (select_columns (columns_to_keep metric) dff)) d3
         = (Inr d4 :: py_error + dataframe)"
    and out: "(header, records) = to_csv d4" by blast
  from out have hr: "header = fst (to_csv d4)" "records = snd (to_csv d4)"
    by (metis fst_conv, metis snd_conv)
  show ?thesis
    unfolding update_export_preview_def using ne st
    by (simp add: and_then_def Let_def to_records_head hr)
qed

theorem preview_is_head_of_export_witness:
  "\<exists>header_text.
     update_export_preview sample_to_datetime sample_df (Some ''2024-01-02'') None
       (Some ''jobs_placed'') (Some ''asia'')
     = Inr ([[(''date'', Date 3), (''country'', Str ''japan''), (''continent'', Str ''asia''),
              (''age_group'', Str ''26-35''), (''jobs_placed'', Num 4)]], header_text)"
  using preview_is_head_of_export [OF sample_download] by simp

section \<open>Properties of the analytics and time tabs\<close>

lemma when_date_ge_ok:
  assumes "truthy s \<longrightarrow> ''date'' \<in> set (columns d) \<and> td (the s) = Inr lo"
  shows "when_do (truthy s) (date_ge td s) d
     = Inr (d\<lparr>rows := filter (\<lambda>r. truthy s \<longrightarrow> ge_ts lo (r ''date'')) (rows d)\<rparr>)"
  using assms by (cases "truthy s") (simp_all add: when_do_def date_ge_def and_then_def)

lemma when_date_le_ok:
  assumes "truthy e \<longrightarrow> ''date'' \<in> set (columns d) \<and> td (the e) = Inr hi"
  shows "when_do (truthy e) (date_le td e) d
     = Inr (d\<lparr>rows := filter (\<lambda>r. truthy e \<longrightarrow> le_ts hi (r ''date'')) (rows d)\<rparr>)"
  using assms by (cases "truthy e") (simp_all add: when_do_def date_le_def and_then_def)

lemma when_col_eq_ok:
  assumes "v \<noteq> Some ''all'' \<longrightarrow> col \<in> set (columns d)"
  shows "when_do (v \<noteq> Some ''all'') (col_eq col v) d
     = Inr (d\<lparr>rows := filter (\<lambda>r. v \<noteq> Some ''all'' \<longrightarrow> cell_eq (r col) v) (rows d)\<rparr>)"
  using assms by (cases "v = Some ''all''") (simp_all add: when_do_def col_eq_def)

lemma analytics_no_rows:
  assumes ne: "\<not> df_empty df" and m: "in_columns metric df"
    and lo: "truthy s \<longrightarrow> ''date'' \<in> set (columns df) \<and> td (the s) = Inr lo"
    and hi: "truthy e \<longrightarrow> ''date'' \<in> set (columns df) \<and> td (the e) = Inr hi"
    and co: "c \<noteq> Some ''all'' \<longrightarrow> ''continent'' \<in> set (columns df)"
    and none: "list_all (\<lambda>r. \<not> survives (truthy s) lo (truthy e) hi c (Some ''all'') r) (rows df)"
  shows "update_analytics_tab out td df s e metric c
     = Inr (RTuple [RList (replicate 5 (RStr ''No data'')),
                    RFig go_Figure, RFig go_Figure, RFig go_Figure])"
proof -
  let ?d1 = "df\<lparr>rows := filter (\<lambda>r. truthy s \<longrightarrow> ge_ts lo (r ''date'')) (rows df)\<rparr>"
  let ?d2 = "?d1\<lparr>rows := filter (\<lambda>r. truthy e \<longrightarrow> le_ts hi (r ''date'')) (rows ?d1)\<rparr>"
  let ?d3 = "?d2\<lparr>rows := filter (\<lambda>r. c \<noteq> Some ''all'' \<longrightarrow> cell_eq (r ''continent'') c) (rows ?d2)\<rparr>"
  have 1: "when_do (truthy s) (date_ge td s) df = Inr ?d1"
    by (rule when_date_ge_ok) (use lo in simp)
  have 2: "when_do (truthy e) (date_le td e) ?d1 = Inr ?d2"
    by (rule when_date_le_ok) (use hi in simp)
  have 3: "when_do (c \<noteq> Some ''all'') (col_eq ''continent'' c) ?d2 = Inr ?d3"
    by (rule when_col_eq_ok) (use co in simp)
  have "rows ?d3 = []"
    using none
    by (auto simp: filter_empty_conv list_all_iff survives_def ge_ts_iff le_ts_iff cell_eq_iff)
  then have emp: "df_empty ?d3" by (simp add: df_empty_def)
  show ?thesis
    unfolding update_analytics_tab_def using ne m emp
    by (simp only: 1 2 3 and_then_def sum.case if_True if_False simp_thms)
qed

lemma time_no_rows:
  assumes ne: "\<not> df_empty df" and m: "in_columns metric df"
    and lo: "truthy s \<longrightarrow> ''date'' \<in> set (columns df) \<and> td (the s) = Inr lo"
    and hi: "truthy e \<longrightarrow> ''date'' \<in> set (columns df) \<and> td (the e) = Inr hi"
    and co: "c \<noteq> Some ''all'' \<longrightarrow> ''continent'' \<in> set (columns df)"
    and cy: "k \<noteq> Some ''all'' \<longrightarrow> ''country'' \<in> set (columns df)"
    and none: "list_all (\<lambda>r. \<not> survives (truthy s) lo (truthy e) hi c k r) (rows df)"
  shows "update_time_tab out td df s e metric c k g
     = Inr (RTuple [RFig go_Figure, RStr ''No data available for selected filters''])"
proof -
  let ?d1 = "df\<lparr>rows := filter (\<lambda>r. truthy s \<longrightarrow> ge_ts lo (r ''date'')) (rows df)\<rparr>"
  let ?d2 = "?d1\<lparr>rows := filter (\<lambda>r. truthy e \<longrightarrow> le_ts hi (r ''date'')) (rows ?d1)\<rparr>"
  let ?d3 = "?d2\<lparr>rows := filter (\<lambda>r. c \<noteq> Some ''all'' \<longrightarrow> cell_eq (r ''continent'') c) (rows ?d2)\<rparr>"
  let ?d4 = "?d3\<lparr>rows := filter (\<lambda>r. k \<noteq> Some ''all'' \<longrightarrow> cell_eq (r ''country'') k) (rows ?d3)\<rparr>"
  have 1: "when_do (truthy s) (date_ge td s) df = Inr ?d1"
    by (rule when_date_ge_ok) (use lo in simp)
  have 2: "when_do (truthy e) (date_le td e) ?d1 = Inr ?d2"
    by (rule when_date_le_ok) (use hi in simp)
  have 3: "when_do (c \<noteq> Some ''all'') (col_eq ''continent'' c) ?d2 = Inr ?d3"
    by (rule when_col_eq_ok) (use co in simp)
  have 4: "when_do (k \<noteq> Some ''all'') (col_eq ''country'' k) ?d3 = Inr ?d4"
    by (rule when_col_eq_ok) (use cy in simp)
  have "rows ?d4 = []"
    using none
    by (auto simp: filter_empty_conv list_all_iff survives_def ge_ts_iff le_ts_iff cell_eq_iff)
  then have emp: "df_empty ?d4" by (simp add: df_empty_def)
  show ?thesis
    unfolding update_time_tab_def using ne m emp
    by (simp only: 1 2 3 4 and_then_def sum.case if_True if_False simp_thms)
qed

text \<open>
  What the two callbacks return on their placeholder paths, for every choice of date
  range, metric, continent and country. When the table is empty or the selected metric
  is not one of its columns, the analytics tab returns a tuple of four values, a list of
  five \<open>N/A\<close> texts and three empty figures, and the time tab an empty figure with the
  text \<open>Select a metric\<close>. When the filters can be evaluated (the columns they read
  exist, as \<open>date\<close> does in every loaded non-empty table, and the set bounds parse to \<open>lo\<close>
  and \<open>hi\<close>) but no row survives them, the analytics tab returns a tuple of four values,
  a list of five \<open>No data\<close> texts and three empty figures, and the time tab an empty
  figure with \<open>No data available for selected filters\<close>. Neither function raises.
\<close>

lemma tabs_placeholder_returns:
  "(df_empty df \<or> \<not> in_columns metric df \<longrightarrow>
      update_analytics_tab aout to_datetime df start_date end_date metric continent
        = Inr (RTuple [RList (replicate 5 (RStr ''N/A'')),
                       RFig go_Figure, RFig go_Figure, RFig go_Figure]) \<and>
      update_time_tab tout to_datetime df start_date end_date metric continent country granularity
        = Inr (RTuple [RFig go_Figure, RStr ''Select a metric''])) \<and>
   (\<not> df_empty df \<and> in_columns metric df \<and>
    (truthy start_date \<longrightarrow> ''date'' \<in> set (columns df) \<and> to_datetime (the start_date) = Inr lo) \<and>
    (truthy end_date \<longrightarrow> ''date'' \<in> set (columns df) \<and> to_datetime (the end_date) = Inr hi) \<and>
    (continent \<noteq> Some ''all'' \<longrightarrow> ''continent'' \<in> set (columns df)) \<longrightarrow>
      (list_all (\<lambda>r. \<not> survives (truthy start_date) lo (truthy end_date) hi continent
                         (Some ''all'') r) (rows df) \<longrightarrow>
         update_analytics_tab aout to_datetime df start_date end_date metric continent
           = Inr (RTuple [RList (replicate 5 (RStr ''No data'')),
                          RFig go_Figure, RFig go_Figure, RFig go_Figure])) \<and>
      ((country \<noteq> Some ''all'' \<longrightarrow> ''country'' \<in> set (columns df)) \<and>
       list_all (\<lambda>r. \<not> survives (truthy start_date) lo (truthy end_date) hi continent
                         country r) (rows df) \<longrightarrow>
         update_time_tab tout to_datetime df start_date end_date metric continent country
             granularity
           = Inr (RTuple [RFig go_Figure, RStr ''No data available for selected filters''])))"
proof (intro conjI impI)
  assume "df_empty df \<or> \<not> in_columns metric df"
  then show "update_analytics_tab aout to_datetime df start_date end_date metric continent
        = Inr (RTuple [RList (replicate 5 (RStr ''N/A'')),
                       RFig go_Figure, RFig go_Figure, RFig go_Figure])"
    and "update_time_tab tout to_datetime df start_date end_date metric continent country
           granularity = Inr (RTuple [RFig go_Figure, RStr ''Select a metric''])"
    by (auto simp: update_analytics_tab_def update_time_tab_def)
next
  assume h: "\<not> df_empty df \<and> in_columns metric df \<and>
    (truthy start_date \<longrightarrow> ''date'' \<in> set (columns df) \<and> to_datetime (the start_date) = Inr lo) \<and>
    (truthy end_date \<longrightarrow> ''date'' \<in> set (columns df) \<and> to_datetime (the end_date) = Inr hi) \<and>
    (continent \<noteq> Some ''all'' \<longrightarrow> ''continent'' \<in> set (columns df))"
  {
    assume "list_all (\<lambda>r. \<not> survives (truthy start_date) lo (truthy end_date) hi continent
                         (Some ''all'') r) (rows df)"
    with h show "update_analytics_tab aout to_datetime df start_date end_date metric continent
           = Inr (RTuple [RList (replicate 5 (RStr ''No data'')),
                          RFig go_Figure, RFig go_Figure, RFig go_Figure])"
      by (intro analytics_no_rows) blast+
  }
  {
    assume "(country \<noteq> Some ''all'' \<longrightarrow> ''country'' \<in> set (columns df)) \<and>
       list_all (\<lambda>r. \<not> survives (truthy start_date) lo (truthy end_date) hi continent
                         country r) (rows df)"
    with h show "update_time_tab tout to_datetime df start_date end_date metric continent country
             granularity
           = Inr (RTuple [RFig go_Figure, RStr ''No data available for selected filters''])"
      by (intro time_no_rows) blast+
  }
qed

lemma replicate_5: "replicate 5 x = [x, x, x, x, x]"
  by (simp add: numeral_eq_Suc)

text \<open>
  C3. The time tab returns its two placeholders for its two outputs. The analytics tab
  declares eight outputs, and its success path returns eight values (app.py:1643-1652),
  but both its placeholder returns (app.py:1565 and 1576) hold four values: the five
  texts stay inside one list, which the source does not unpack. So on these paths the
  eight outputs are not given one placeholder each. On the small table this happens for
  a metric that is no column, and for a continent that no row has.
\<close>

theorem analytics_placeholder_arity:
  "update_analytics_tab (\<lambda>d m. Inl TypeError) sample_to_datetime sample_df
       None None (Some ''revenue'') (Some ''all'')
     = Inr (RTuple [RList [RStr ''N/A'', RStr ''N/A'', RStr ''N/A'', RStr ''N/A'', RStr ''N/A''],
                    RFig (go_Figure :: unit figure), RFig go_Figure, RFig go_Figure]) \<and>
   update_analytics_tab (\<lambda>d m. Inl TypeError) sample_to_datetime sample_df
       (Some ''2024-01-02'') None (Some ''jobs_placed'') (Some ''europe'')
     = Inr (RTuple [RList [RStr ''No data'', RStr ''No data'', RStr ''No data'', RStr ''No data'',
                           RStr ''No data''],
                    RFig (go_Figure :: unit figure), RFig go_Figure, RFig go_Figure]) \<and>
   n_values (RTuple [RList [RStr ''N/A'', RStr ''N/A'', RStr ''N/A'', RStr ''N/A'', RStr ''N/A''],
                     RFig (go_Figure :: unit figure), RFig go_Figure, RFig go_Figure]) = 4 \<and>
   length analytics_declared_outputs = 8"
  by (simp add: update_analytics_tab_def sample_df_def sample_columns_def sample_to_datetime_def
      mk_row_def df_empty_def in_columns_def and_then_def when_do_def truthy_def date_ge_def
      ge_ts_def col_eq_def cell_eq_def analytics_declared_outputs_def replicate_5)

section \<open>Properties of grouping\<close>

lemma summable_simps:
  "summable (Num i)" "summable NaN" "\<not> summable (Str s)" "\<not> summable (Date t)"
  by (simp_all add: summable_def)

lemma cell_int_simps:
  "cell_int (Num i) = i" "cell_int NaN = 0" "cell_int (Str s) = 0" "cell_int (Date t) = 0"
  by (simp_all add: cell_int_def)

lemma sum_cells_eq:
  "sum_cells cs = (if list_all summable cs then Inr (sum_list (map cell_int cs)) else Inl TypeError)"
  by (induction cs rule: sum_cells.induct) (simp_all add: summable_simps cell_int_simps and_then_def)

lemma collect_Inr: "collect xs = Inr ys \<longleftrightarrow> xs = map Inr ys"
proof (induction xs arbitrary: ys)
  case Nil
  then show ?case by auto
next
  case (Cons x xs)
  show ?case
  proof (cases x)
    case (Inl e)
    then show ?thesis by (auto simp: and_then_def)
  next
    case (Inr v)
    show ?thesis
    proof (cases "collect xs")
      case (Inl e)
      with Cons.IH have "\<And>zs. xs \<noteq> map Inr zs" by auto
      with Inl Inr show ?thesis by (auto simp: and_then_def)
    next
      case r: (Inr vs)
      with Cons.IH [of vs] have "xs = map Inr vs" by simp
      with r Inr show ?thesis by (auto simp: and_then_def)
    qed
  qed
qed

lemma collect_groups:
  assumes "collect (map (\<lambda>k. and_then (sum_cells (F k)) (\<lambda>t. Inr (k, t))) ks) = Inr g"
  shows "g = map (\<lambda>k. (k, sum_list (map cell_int (F k)))) ks \<and> (\<forall>k\<in>set ks. list_all summable (F k))"
  using assms
proof (induction ks arbitrary: g)
  case Nil
  then show ?case by simp
next
  case (Cons k ks)
  from Cons.prems obtain v vs where v: "and_then (sum_cells (F k)) (\<lambda>t. Inr (k, t)) = Inr v"
    and vs: "collect (map (\<lambda>k. and_then (sum_cells (F k)) (\<lambda>t. Inr (k, t))) ks) = Inr vs"
    and g: "g = v # vs"
    by (auto simp: and_then_Inr)
  from v have "list_all summable (F k)" "v = (k, sum_list (map cell_int (F k)))"
    by (auto simp: and_then_Inr sum_cells_eq split: if_splits)
  with Cons.IH [OF vs] g show ?case by simp
qed

lemma sum_list_filter_disj:
  fixes h :: "'a \<Rightarrow> int"
  assumes "\<And>r. \<not> (P r \<and> Q r)"
  shows "sum_list (map h (filter (\<lambda>r. P r \<or> Q r) rs))
       = sum_list (map h (filter P rs)) + sum_list (map h (filter Q rs))"
  using assms by (induction rs) auto

lemma sum_groups:
  fixes h :: "'a \<Rightarrow> int"
  assumes "distinct ks"
  shows "(\<Sum>k\<leftarrow>ks. sum_list (map h (filter (\<lambda>r. g r = k) rs)))
       = sum_list (map h (filter (\<lambda>r. g r \<in> set ks) rs))"
  using assms
proof (induction ks)
  case Nil
  then show ?case by simp
next
  case (Cons k ks)
  have "sum_list (map h (filter (\<lambda>r. g r = k \<or> g r \<in> set ks) rs))
      = sum_list (map h (filter (\<lambda>r. g r = k) rs)) + sum_list (map h (filter (\<lambda>r. g r \<in> set ks) rs))"
    using Cons.prems by (intro sum_list_filter_disj) auto
  with Cons show ?case by (simp add: disj_commute eq_commute)
qed

lemma groupby_sum_total:
  assumes "groupby_sum by m d = Inr g"
  shows "sum_cells (getcol m (d\<lparr>rows := filter (\<lambda>r. r by \<noteq> NaN) (rows d)\<rparr>))
       = Inr (sum_list (map snd g))"
proof -
  let ?F = "\<lambda>k. getcol m (d\<lparr>rows := filter (\<lambda>r. r by = k) (rows d)\<rparr>)"
  let ?ks = "group_keys by d"
  from assms have c: "collect (map (\<lambda>k. and_then (sum_cells (?F k)) (\<lambda>t. Inr (k, t))) ?ks) = Inr g"
    by (auto simp: groupby_sum_def split: if_splits)
  from collect_groups [OF c] have g: "g = map (\<lambda>k. (k, sum_list (map cell_int (?F k)))) ?ks"
    and s: "\<forall>k\<in>set ?ks. list_all summable (?F k)" by blast+
  have ks: "set ?ks = set (getcol by d) - {NaN}" "distinct ?ks"
    by (auto simp: group_keys_def)
  have mem: "\<And>r. r \<in> set (rows d) \<Longrightarrow> (r by \<in> set ?ks) = (r by \<noteq> NaN)"
    by (auto simp: ks getcol_def)
  have "sum_list (map snd g) = (\<Sum>k\<leftarrow>?ks. sum_list (map (\<lambda>r. cell_int (r m)) (filter (\<lambda>r. r by = k) (rows d))))"
    by (simp add: g getcol_def comp_def)
  also have "\<dots> = sum_list (map (\<lambda>r. cell_int (r m)) (filter (\<lambda>r. r by \<in> set ?ks) (rows d)))"
    by (rule sum_groups [OF ks(2)])
  also have "filter (\<lambda>r. r by \<in> set ?ks) (rows d) = filter (\<lambda>r. r by \<noteq> NaN) (rows d)"
    by (rule filter_cong) (simp_all add: mem)
  finally have tot: "sum_list (map snd g)
     = sum_list (map cell_int (getcol m (d\<lparr>rows := filter (\<lambda>r. r by \<noteq> NaN) (rows d)\<rparr>)))"
    by (simp add: getcol_def comp_def)
  have "list_all summable (getcol m (d\<lparr>rows := filter (\<lambda>r. r by \<noteq> NaN) (rows d)\<rparr>))"
    unfolding list_all_iff
  proof
    fix c assume "c \<in> set (getcol m (d\<lparr>rows := filter (\<lambda>r. r by \<noteq> NaN) (rows d)\<rparr>))"
    then obtain r where r: "r \<in> set (rows d)" "r by \<noteq> NaN" "c = r m"
      by (auto simp: getcol_def)
    then have "r by \<in> set ?ks" by (simp add: mem)
    with s have "list_all summable (?F (r by))" by blast
    with r show "summable c" by (auto simp: list_all_iff getcol_def)
  qed
  then show ?thesis by (simp add: sum_cells_eq tot)
qed

lemma collect_project:
  assumes "collect (map (\<lambda>k. and_then (collect (map (\<lambda>m. sum_cells (F k m)) ms))
                                   (\<lambda>ts. Inr (k, ts))) ks) = Inr st"
    and "i < length ms"
  shows "collect (map (\<lambda>k. and_then (sum_cells (F k (ms ! i))) (\<lambda>t. Inr (k, t))) ks)
       = Inr (map (\<lambda>(k, ts). (k, ts ! i)) st)"
  using assms(1)
proof (induction ks arbitrary: st)
  case Nil
  then show ?case by simp
next
  case (Cons k ks)
  from Cons.prems obtain ts st' where
    ts: "collect (map (\<lambda>m. sum_cells (F k m)) ms) = Inr ts"
    and st': "collect (map (\<lambda>k. and_then (collect (map (\<lambda>m. sum_cells (F k m)) ms))
                                   (\<lambda>ts. Inr (k, ts))) ks) = Inr st'"
    and st: "st = (k, ts) # st'"
    by (auto simp: and_then_Inr)
  from ts have eq: "map (\<lambda>m. sum_cells (F k m)) ms = map Inr ts"
    by (simp add: collect_Inr)
  then have "length ms = length ts" by (metis length_map)
  with eq assms(2) have "sum_cells (F k (ms ! i)) = Inr (ts ! i)"
    by (metis nth_map)
  with Cons.IH [OF st'] st show ?case by (simp add: and_then_def)
qed

lemma groupby_sums_project:
  assumes "groupby_sums by ms d = Inr st" and "i < length ms"
  shows "groupby_sum by (ms ! i) d = Inr (map (\<lambda>(k, ts). (k, ts ! i)) st)"
proof -
  from assms(1) have key: "by \<in> set (columns d)"
    and all: "filter (\<lambda>m. m \<notin> set (columns d)) ms = []"
    and c: "collect (map (\<lambda>k. and_then
                   (collect (map (\<lambda>m.
                      sum_cells (getcol m (d\<lparr>rows := filter (\<lambda>r. r by = k) (rows d)\<rparr>))) ms))
                   (\<lambda>totals. Inr (k, totals)))
                 (group_keys by d)) = Inr st"
    by (auto simp: groupby_sums_def split: if_splits list.splits)
  from all assms(2) have m: "ms ! i \<in> set (columns d)"
    by (auto simp: filter_empty_conv)
  from collect_project [OF c assms(2)] key m show ?thesis
    by (simp add: groupby_sum_def)
qed

lemma region_steps:
  assumes 1: "when_do (c \<noteq> Some ''all'') (col_eq ''continent'' c) df = Inr d1"
    and 2: "when_do (k \<noteq> Some ''all'') (col_eq ''country'' k) d1 = Inr d2"
  shows "columns d2 = columns df \<and> rows d2 = filter (in_region c k) (rows df)"
proof -
  from when_col_eq [OF 1] have c1: "columns d1 = columns df"
    and r1: "rows d1 = filter (\<lambda>r. c \<noteq> Some ''all'' \<longrightarrow> cell_eq (r ''continent'') c) (rows df)"
    by blast+
  from when_col_eq [OF 2] have c2: "columns d2 = columns d1"
    and r2: "rows d2 = filter (\<lambda>r. k \<noteq> Some ''all'' \<longrightarrow> cell_eq (r ''country'') k) (rows d1)"
    by blast+
  have "rows d2 = filter (in_region c k) (rows df)"
    unfolding r2 r1 filter_filter
    by (rule filter_cong) (auto simp: survives_def cell_eq_iff)
  with c1 c2 show ?thesis by simp
qed

lemma age_tab_bar_df:
  assumes "update_age_tab df (Some m) continent country = Inr (Plot (px_bar bar_df), pie)"
  shows "\<exists>dff. rows dff = filter (in_region continent country) (rows df) \<and>
               groupby_sum ''age_group'' m dff = Inr bar_df"
proof -
  from assms obtain d1 d2 where
    1: "when_do (continent \<noteq> Some ''all'') (col_eq ''continent'' continent) df = Inr d1"
    and 2: "when_do (country \<noteq> Some ''all'') (col_eq ''country'' country) d1 = Inr d2"
    and g: "groupby_sum ''age_group'' m d2 = Inr bar_df"
    unfolding update_age_tab_def
    by (auto simp: and_then_Inr split: if_splits)
  from region_steps [OF 1 2] g show ?thesis by blast
qed

lemma summary_stacked_df_steps:
  assumes "summary_stacked_df df continent country = Inr (Some stacked_df)"
  shows "\<exists>dff. rows dff = filter (in_region continent country) (rows df) \<and>
           groupby_sums (if continent = Some ''all'' then ''continent'' else ''country'')
             metrics dff = Inr stacked_df"
proof -
  from assms obtain d1 d2 where
    1: "when_do (continent \<noteq> Some ''all'') (col_eq ''continent'' continent) df = Inr d1"
    and 2: "when_do (country \<noteq> Some ''all'') (col_eq ''country'' country) d1 = Inr d2"
    and g: "groupby_sums (if continent = Some ''all'' then ''continent'' else ''country'')
              metrics d2 = Inr stacked_df"
    unfolding summary_stacked_df_def
    by (auto simp: and_then_Inr Let_def split: if_splits)
  from region_steps [OF 1 2] g show ?thesis by blast
qed

lemma groupby_sum_rows:
  assumes "groupby_sum by m dff = Inr g" and "rows dff = filter P rws"
  shows "sum_cells (map (\<lambda>r. r m) (filter (\<lambda>r. r by \<noteq> NaN \<and> P r) rws))
       = Inr (sum_list (map snd g))"
proof -
  have "filter (\<lambda>r. r by \<noteq> NaN) (filter P rws) = filter (\<lambda>r. r by \<noteq> NaN \<and> P r) rws"
    unfolding filter_filter by (rule filter_cong) auto
  with groupby_sum_total [OF assms(1)] assms(2) show ?thesis
    by (simp add: getcol_def)
qed

text \<open>
  C2 as stated fails: \<open>groupby\<close> leaves out the rows whose grouping value is missing. In
  the small table the second row has no age group; with no filter set, the bars of the
  age tab add up to 9 while the \<open>jobs_placed\<close> column adds up to 16.
\<close>

theorem age_groups_lose_rows:
  "update_age_tab sample_df (Some ''jobs_placed'') (Some ''all'') (Some ''all'')
     = Inr (Plot (px_bar [(Str ''18-25'', 5), (Str ''26-35'', 4)]),
            Plot (px_pie [(Str ''18-25'', 5), (Str ''26-35'', 4)])) \<and>
   sum_list (map snd [(Str ''18-25'', 5), (Str ''26-35'', 4 :: int)]) = 9 \<and>
   sum_cells (getcol ''jobs_placed'' sample_df) = Inr 16"
  by (simp add: update_age_tab_def sample_df_def sample_columns_def mk_row_def df_empty_def
      in_columns_def and_then_def when_do_def groupby_sum_def group_keys_def getcol_def)

text \<open>
  C2, amended. For a metric column of the table and any continent and country filter:
  the per-group totals of the age tab (grouped by \<open>age_group\<close>) and of the summary tab
  (grouped by \<open>continent\<close>, or by \<open>country\<close> when a continent is selected) add up to the
  sum of that metric over the filtered rows whose grouping value is not missing. Among
  those rows the grouping loses and duplicates none; rows with a missing grouping value
  are in no group.
\<close>

theorem group_totals_sum:
  "(update_age_tab df (Some m) continent country = Inr (Plot (px_bar bar_df), pie) \<longrightarrow>
      sum_cells (map (\<lambda>r. r m)
         (filter (\<lambda>r. r ''age_group'' \<noteq> NaN \<and> in_region continent country r) (rows df)))
        = Inr (sum_list (map snd bar_df))) \<and>
   (summary_stacked_df df continent country = Inr (Some stacked_df) \<and> i < length metrics \<longrightarrow>
      sum_cells (map (\<lambda>r. r (metrics ! i))
         (filter (\<lambda>r. r (if continent = Some ''all'' then ''continent'' else ''country'') \<noteq> NaN \<and>
                       in_region continent country r) (rows df)))
        = Inr (sum_list (map (\<lambda>(k, totals). totals ! i) stacked_df)))"
proof (intro conjI impI)
  assume "update_age_tab df (Some m) continent country = Inr (Plot (px_bar bar_df), pie)"
  from age_tab_bar_df [OF this] obtain dff where
    "rows dff = filter (in_region continent country) (rows df)"
    "groupby_sum ''age_group'' m dff = Inr bar_df" by blast
  from groupby_sum_rows [OF this(2) this(1)]
  show "sum_cells (map (\<lambda>r. r m)
         (filter (\<lambda>r. r ''age_group'' \<noteq> NaN \<and> in_region continent country r) (rows df)))
        = Inr (sum_list (map snd bar_df))" .
next
  let ?by = "if continent = Some ''all'' then ''continent'' else ''country''"
  assume a: "summary_stacked_df df continent country = Inr (Some stacked_df) \<and> i < length metrics"
  from summary_stacked_df_steps [of df continent country stacked_df] a obtain dff where
    r: "rows dff = filter (in_region continent country) (rows df)"
    and g: "groupby_sums ?by metrics dff = Inr stacked_df" by blast
  from groupby_sums_project [OF g] a
  have "groupby_sum ?by (metrics ! i) dff = Inr (map (\<lambda>(k, ts). (k, ts ! i)) stacked_df)"
    by blast
  from groupby_sum_rows [OF this r]
  have "sum_cells (map (\<lambda>r. r (metrics ! i))
         (filter (\<lambda>r. r ?by \<noteq> NaN \<and> in_region continent country r) (rows df)))
        = Inr (sum_list (map snd (map (\<lambda>(k, ts). (k, ts ! i)) stacked_df)))" .
  moreover have "map snd (map (\<lambda>(k, ts). (k, ts ! i)) stacked_df)
      = map (\<lambda>(k, totals). totals ! i) stacked_df"
    by (induction stacked_df) auto
  ultimately show "sum_cells (map (\<lambda>r. r (metrics ! i))
         (filter (\<lambda>r. r ?by \<noteq> NaN \<and> in_region continent country r) (rows df)))
        = Inr (sum_list (map (\<lambda>(k, totals). totals ! i) stacked_df))"
    by (simp only:)
qed

lemma sample_stacked:
  "summary_stacked_df sample_df (Some ''asia'') (Some ''all'')
     = Inr (Some [(Str ''india'', [5, 1, 0, 2]), (Str ''japan'', [4, 2, 2, 1])])"
  by (simp add: summary_stacked_df_def summary_totals_def metrics_def sample_df_def
      sample_columns_def mk_row_def df_empty_def and_then_def when_do_def col_eq_def cell_eq_def
      groupby_sums_def group_keys_def getcol_def)

lemma sample_age:
  "update_age_tab sample_df (Some ''jobs_placed'') (Some ''all'') (Some ''all'')
     = Inr (Plot (px_bar [(Str ''18-25'', 5), (Str ''26-35'', 4)]),
            Plot (px_pie [(Str ''18-25'', 5), (Str ''26-35'', 4)]))"
  by (simp add: update_age_tab_def sample_df_def sample_columns_def mk_row_def df_empty_def
      in_columns_def and_then_def when_do_def groupby_sum_def group_keys_def getcol_def)

theorem group_totals_sum_witness:
  "sum_cells (map (\<lambda>r. r ''jobs_placed'')
      (filter (\<lambda>r. r ''age_group'' \<noteq> NaN \<and> in_region (Some ''all'') (Some ''all'') r)
         (rows sample_df))) = Inr 9 \<and>
   sum_cells (map (\<lambda>r. r (metrics ! 1))
      (filter (\<lambda>r. r ''country'' \<noteq> NaN \<and> in_region (Some ''asia'') (Some ''all'') r)
         (rows sample_df))) = Inr 3"
proof -
  have i: "1 < length metrics" by (simp add: metrics_def)
  from group_totals_sum [where df = sample_df and m = "''jobs_placed''"
      and continent = "Some ''all''" and country = "Some ''all''"
      and bar_df = "[(Str ''18-25'', 5), (Str ''26-35'', 4)]"
      and pie = "Plot (px_pie [(Str ''18-25'', 5), (Str ''26-35'', 4)])"]
    sample_age
  have A: "sum_cells (map (\<lambda>r. r ''jobs_placed'')
      (filter (\<lambda>r. r ''age_group'' \<noteq> NaN \<and> in_region (Some ''all'') (Some ''all'') r)
         (rows sample_df))) = Inr 9"
    by simp
  from group_totals_sum [where df = sample_df
      and continent = "Some ''asia''" and country = "Some ''all''"
      and stacked_df = "[(Str ''india'', [5, 1, 0, 2]), (Str ''japan'', [4, 2, 2, 1])]"
      and i = 1]
    sample_stacked i
  have B: "sum_cells (map (\<lambda>r. r (metrics ! 1))
      (filter (\<lambda>r. r ''country'' \<noteq> NaN \<and> in_region (Some ''asia'') (Some ''all'') r)
         (rows sample_df))) = Inr 3"
    by simp
  show ?thesis by (intro conjI) (rule A B)+
qed

section \<open>Properties of the geo tab\<close>










section \<open>Properties of the overview\<close>

lemma and_then_Inl: "m = Inl e \<Longrightarrow> and_then m f = Inl e"
  by (simp add: and_then_def)

lemma collect_error:
  assumes "Inl e \<in> set xs"
  shows "\<exists>e'. collect xs = Inl e'"
proof (cases "collect xs")
  case (Inl e')
  then show ?thesis by blast
next
  case (Inr ys)
  then have "xs = map Inr ys" by (simp add: collect_Inr)
  with assms show ?thesis by auto
qed

lemma overview_body_missing_metric:
  assumes "metric \<in> set metrics" "metric \<notin> set (columns df)"
  shows "\<exists>e. overview_body fmt activity_chart strftime df = Inl e"
proof -
  let ?xs = "map (\<lambda>metric. if metric \<notin> set (columns df) then Inl (KeyError metric)
                            else sum_cells (getcol metric df)) metrics"
  from assms have "Inl (KeyError metric) \<in> set ?xs" by force
  from collect_error [OF this] obtain e where "collect ?xs = Inl e" by blast
  then have "overview_body fmt activity_chart strftime df = Inl e"
    unfolding overview_body_def by (rule and_then_Inl)
  then show ?thesis by blast
qed

text \<open>
  C8 as stated fails on the exception path: for a loaded table without the metric
  columns, the aggregation raises \<open>KeyError\<close>, and the overview returns \<open>Error\<close>, not \<open>N/A\<close>,
  for top country, peak day and best metric.
\<close>

theorem overview_exception_says_Error:
  "update_overview_content (\<lambda>i. ''7'') (\<lambda>d. Inr ()) (\<lambda>d. ''Jan 01, 2024'')
      sample_no_metrics None (Some ''overview'')
   = (RTuple [RList [RStr ''0'', RStr ''0'', RStr ''0'', RStr ''0''], RFig px_line,
              RStr ''Error'', RStr ''Error'', RStr ''Error''],
      [KeyError ''jobs_placed''])"
  by (simp add: update_overview_content_def overview_body_def sample_no_metrics_def
      df_empty_def metrics_def and_then_def numeral_Bit0 numeral_Bit1)

text \<open>
  C8, amended. The overview update always returns; nothing is fatal. For an empty
  dataset or another active tab the value it returns carries the placeholders \<open>0\<close> (four
  times, for the metric totals), an empty line chart and \<open>N/A\<close> for top country, peak day
  and best metric, and nothing is logged. When the aggregation raises an exception, and
  it does whenever a metric column is missing, the exception is logged and the value
  carries the same placeholders with \<open>Error\<close> in place of \<open>N/A\<close>.
\<close>

theorem overview_failure_placeholders:
  "(df_empty df \<or> active_tab \<noteq> Some ''overview'' \<longrightarrow>
      leaves (fst (update_overview_content fmt activity_chart strftime df auth active_tab))
        = replicate 4 (RStr ''0'') @ [RFig px_line, RStr ''N/A'', RStr ''N/A'', RStr ''N/A''] \<and>
      snd (update_overview_content fmt activity_chart strftime df auth active_tab) = []) \<and>
   (\<not> df_empty df \<and> active_tab = Some ''overview'' \<and>
    overview_body fmt activity_chart strftime df = Inl e \<longrightarrow>
      leaves (fst (update_overview_content fmt activity_chart strftime df auth active_tab))
        = replicate 4 (RStr ''0'') @ [RFig px_line, RStr ''Error'', RStr ''Error'', RStr ''Error''] \<and>
      snd (update_overview_content fmt activity_chart strftime df auth active_tab) = [e]) \<and>
   (\<not> df_empty df \<and> active_tab = Some ''overview'' \<and>
    metric \<in> set metrics \<and> metric \<notin> set (columns df) \<longrightarrow>
      leaves (fst (update_overview_content fmt activity_chart strftime df auth active_tab))
        = replicate 4 (RStr ''0'') @ [RFig px_line, RStr ''Error'', RStr ''Error'', RStr ''Error''] \<and>
      (\<exists>e'. snd (update_overview_content fmt activity_chart strftime df auth active_tab) = [e']))"
proof (intro conjI impI)
  assume a: "df_empty df \<or> active_tab \<noteq> Some ''overview''"
  then show "leaves (fst (update_overview_content fmt activity_chart strftime df auth active_tab))
        = replicate 4 (RStr ''0'') @ [RFig px_line, RStr ''N/A'', RStr ''N/A'', RStr ''N/A'']"
    by (auto simp: update_overview_content_def numeral_Bit0)
  from a show "snd (update_overview_content fmt activity_chart strftime df auth active_tab) = []"
    by (auto simp: update_overview_content_def)
next
  assume a: "\<not> df_empty df \<and> active_tab = Some ''overview'' \<and>
    overview_body fmt activity_chart strftime df = Inl e"
  then show "leaves (fst (update_overview_content fmt activity_chart strftime df auth active_tab))
        = replicate 4 (RStr ''0'') @ [RFig px_line, RStr ''Error'', RStr ''Error'', RStr ''Error'']"
    by (simp add: update_overview_content_def numeral_Bit0)
  from a show "snd (update_overview_content fmt activity_chart strftime df auth active_tab) = [e]"
    by (simp add: update_overview_content_def)
next
  assume a: "\<not> df_empty df \<and> active_tab = Some ''overview'' \<and>
    metric \<in> set metrics \<and> metric \<notin> set (columns df)"
  then obtain e' where e': "overview_body fmt activity_chart strftime df = Inl e'"
    using overview_body_missing_metric by blast
  with a show "leaves (fst (update_overview_content fmt activity_chart strftime df auth active_tab))
        = replicate 4 (RStr ''0'') @ [RFig px_line, RStr ''Error'', RStr ''Error'', RStr ''Error'']"
    by (simp add: update_overview_content_def numeral_Bit0)
  from a e' show "\<exists>e'. snd (update_overview_content fmt activity_chart strftime df auth active_tab)
        = [e']"
    by (simp add: update_overview_content_def)
qed

theorem overview_failure_placeholders_witness:
  "leaves (fst (update_overview_content (\<lambda>i. ''7'') (\<lambda>d. Inr ()) (\<lambda>d. ''Jan 01, 2024'')
      sample_df None (Some ''geo'')))
   = replicate 4 (RStr ''0'') @ [RFig px_line, RStr ''N/A'', RStr ''N/A'', RStr ''N/A''] \<and>
   leaves (fst (update_overview_content (\<lambda>i. ''7'') (\<lambda>d. Inr ()) (\<lambda>d. ''Jan 01, 2024'')
      sample_no_metrics None (Some ''overview'')))
   = replicate 4 (RStr ''0'') @ [RFig px_line, RStr ''Error'', RStr ''Error'', RStr ''Error'']"
proof -
  let ?f = "\<lambda>i :: int. ''7''" and ?a = "\<lambda>d :: dataframe. Inr () :: py_error + unit"
    and ?s = "\<lambda>d :: int. ''Jan 01, 2024''"
  have ne: "\<not> df_empty sample_no_metrics"
    by (simp add: df_empty_def sample_no_metrics_def)
  have m: "''jobs_placed'' \<in> set metrics" "''jobs_placed'' \<notin> set (columns sample_no_metrics)"
    by (simp_all add: metrics_def sample_no_metrics_def)
  have t: "Some ''geo'' \<noteq> Some ''overview''" by simp
  from overview_failure_placeholders [where df = sample_df and active_tab = "Some ''geo''"
      and fmt = ?f and activity_chart = ?a and strftime = ?s and auth = None] t
  have A: "leaves (fst (update_overview_content ?f ?a ?s sample_df None (Some ''geo'')))
   = replicate 4 (RStr ''0'') @ [RFig px_line, RStr ''N/A'', RStr ''N/A'', RStr ''N/A'']"
    by blast
  from overview_failure_placeholders [where df = sample_no_metrics
      and active_tab = "Some ''overview''" and metric = "''jobs_placed''"
      and fmt = ?f and activity_chart = ?a and strftime = ?s and auth = None] ne m
  have B: "leaves (fst (update_overview_content ?f ?a ?s sample_no_metrics None (Some ''overview'')))
   = replicate 4 (RStr ''0'') @ [RFig px_line, RStr ''Error'', RStr ''Error'', RStr ''Error'']"
    by blast
  show ?thesis by (intro conjI) (rule A B)+
qed

section \<open>Properties of the callbacks on the store\<close>

lemma implements_pure:
  assumes "implements a p f"
  shows "pure_callback a p"
  unfolding pure_callback_def
proof (intro allI impI)
  fix h :: store assume a: "a < next_addr h"
  from assms a have 1: "fst (p h) = f (objs h a)" "objs (snd (p h)) a = objs h a"
    "next_addr h \<le> next_addr (snd (p h))"
    by (auto simp: implements_def)
  from a 1(3) have a': "a < next_addr (snd (p h))" by simp
  with assms have 2: "fst (p (snd (p h))) = f (objs (snd (p h)) a)"
    by (auto simp: implements_def)
  have 3: "\<forall>h'. a < next_addr h' \<and> objs h' a = objs h a \<longrightarrow> fst (p h') = fst (p h)"
    using assms 1(1) by (auto simp: implements_def)
  show "objs (snd (p h)) a = objs h a \<and> a < next_addr (snd (p h)) \<and>
        fst (p (snd (p h))) = fst (p h) \<and>
        (\<forall>h'. a < next_addr h' \<and> objs h' a = objs h a \<longrightarrow> fst (p h') = fst (p h))"
    using 1 2 3 a' by simp
qed

lemma stage_derive_if:
  assumes "stage a k f"
  shows "stage a (\<lambda>x. derive_if c step x k) (\<lambda>d. and_then (when_do c step d) f)"
  unfolding stage_def
proof (intro allI impI)
  fix h :: store and x assume ax: "a < next_addr h \<and> x < next_addr h"
  show "fst (derive_if c step x k h) = and_then (when_do c step (objs h x)) f \<and>
        objs (snd (derive_if c step x k h)) a = objs h a \<and>
        next_addr h \<le> next_addr (snd (derive_if c step x k h))"
  proof (cases c)
    case False
    with assms ax show ?thesis
      by (simp add: derive_if_def when_do_def and_then_def stage_def)
  next
    case True
    show ?thesis
    proof (cases "step (objs h x)")
      case (Inl e)
      with True show ?thesis
        by (simp add: derive_if_def when_do_def and_then_def load_def lift_def)
    next
      case (Inr d')
      let ?h = "h\<lparr>objs := (objs h)(next_addr h := d'), next_addr := Suc (next_addr h)\<rparr>"
      have "a < next_addr ?h \<and> next_addr h < next_addr ?h" using ax by simp
      with assms have "fst (k (next_addr h) ?h) = f (objs ?h (next_addr h))"
        "objs (snd (k (next_addr h) ?h)) a = objs ?h a"
        "next_addr ?h \<le> next_addr (snd (k (next_addr h) ?h))"
        unfolding stage_def by blast+
      with True Inr ax show ?thesis
        by (simp add: derive_if_def when_do_def and_then_def load_def lift_def new_obj_def)
    qed
  qed
qed

lemma implements_copy:
  assumes "stage a k f"
  shows "implements a (load a (\<lambda>df. if guard df then ret v else new_obj df k))
           (\<lambda>df. if guard df then Inr v else f df)"
  unfolding implements_def
proof (intro allI impI)
  fix h :: store assume a: "a < next_addr h"
  let ?h = "h\<lparr>objs := (objs h)(next_addr h := objs h a), next_addr := Suc (next_addr h)\<rparr>"
  have "a < next_addr ?h \<and> next_addr h < next_addr ?h" using a by simp
  with assms have "fst (k (next_addr h) ?h) = f (objs ?h (next_addr h))"
    "objs (snd (k (next_addr h) ?h)) a = objs ?h a"
    "next_addr ?h \<le> next_addr (snd (k (next_addr h) ?h))"
    unfolding stage_def by blast+
  with a show "fst (load a (\<lambda>df. if guard df then ret v else new_obj df k) h)
         = (if guard (objs h a) then Inr v else f (objs h a)) \<and>
        objs (snd (load a (\<lambda>df. if guard df then ret v else new_obj df k) h)) a = objs h a \<and>
        next_addr h \<le> next_addr (snd (load a (\<lambda>df. if guard df then ret v else new_obj df k) h))"
    by (simp add: load_def ret_def new_obj_def)
qed

lemma stage_tail_if:
  "stage a (\<lambda>x. load x (\<lambda>d. if E d then ret v else lift (g d) ret))
           (\<lambda>d. if E d then Inr v else g d)"
  by (auto simp: stage_def load_def lift_def ret_def split: sum.splits)

lemma analytics_implements:
  "implements a (run_update_analytics_tab aout td a s e m c)
     (\<lambda>df. update_analytics_tab aout td df s e m c)"
  unfolding run_update_analytics_tab_def update_analytics_tab_def
  by (intro implements_copy stage_derive_if stage_tail_if)

lemma time_implements:
  "implements a (run_update_time_tab tout td a s e m c k g)
     (\<lambda>df. update_time_tab tout td df s e m c k g)"
  unfolding run_update_time_tab_def update_time_tab_def
  by (intro implements_copy stage_derive_if stage_tail_if)

lemma age_implements:
  "implements a (run_update_age_tab a m c k) (\<lambda>df. update_age_tab df m c k)"
proof -
  have tail: "stage a
     (\<lambda>x. load x (\<lambda>d. if df_empty d then ret (go_Figure, go_Figure)
           else lift (groupby_sum ''age_group'' (the m) d) (\<lambda>bar_df.
                  ret (Plot (px_bar bar_df), Plot (px_pie bar_df)))))
     (\<lambda>dff. if df_empty dff then Inr (go_Figure, go_Figure)
           else and_then (groupby_sum ''age_group'' (the m) dff) (\<lambda>bar_df.
                  Inr (Plot (px_bar bar_df), Plot (px_pie bar_df))))"
    by (auto simp: stage_def load_def lift_def ret_def and_then_def split: sum.splits)
  show ?thesis
    unfolding run_update_age_tab_def update_age_tab_def
    by (intro implements_copy stage_derive_if tail)
qed

lemma export_preview_implements:
  "implements a (run_update_export_preview td a s e m c)
     (\<lambda>df. update_export_preview td df s e m c)"
proof -
  have tail: "stage a
     (\<lambda>x. load x (\<lambda>d.
           let filters_applied = (s \<noteq> None \<or> e \<noteq> None \<or> c \<noteq> Some ''all'' \<or> m \<noteq> Some ''all'');
               header_text = (if filters_applied then ''Filtered Dataset Preview''
                              else ''Dataset Preview (First 10 rows)'')
           in ret (to_records (head 10 d), header_text)))
     (\<lambda>dff.
           let filters_applied = (s \<noteq> None \<or> e \<noteq> None \<or> c \<noteq> Some ''all'' \<or> m \<noteq> Some ''all'');
               header_text = (if filters_applied then ''Filtered Dataset Preview''
                              else ''Dataset Preview (First 10 rows)'')
           in Inr (to_records (head 10 dff), header_text))"
    by (auto simp: stage_def load_def ret_def Let_def)
  show ?thesis
    unfolding run_update_export_preview_def update_export_preview_def
    by (intro implements_copy stage_derive_if tail)
qed

lemma overview_implements:
  "implements a (run_update_overview_content fmt ac sf a auth tab)
     (\<lambda>df. Inr (update_overview_content fmt ac sf df auth tab))"
  by (simp add: implements_def run_update_overview_content_def load_def ret_def)

lemma summary_implements:
  "implements a (run_update_summary_tab donut pct bar trend a c k v)
     (\<lambda>df. update_summary_tab donut pct bar trend df c k v)"
proof -
  let ?by = "if c = Some ''all'' then ''continent'' else ''country''"
  have tail: "stage a
     (\<lambda>x. load x (\<lambda>d.
         lift (summary_totals d) (\<lambda>totals.
         lift (donut totals) (\<lambda>donut_fig.
         let group_by = ?by in
         lift (groupby_sums group_by metrics d) (\<lambda>groups.
         new_obj (frame_of_groups group_by metrics groups) (\<lambda>stacked_df.
         assign_if (v = Some ''percentage'') stacked_df pct
         (load stacked_df (\<lambda>s.
          lift (bar s group_by v) (\<lambda>stacked_fig.
          lift (trend d) (\<lambda>trend_fig.
            ret (Plot donut_fig, Plot stacked_fig, Plot trend_fig)))))))))))
     (\<lambda>dff.
        and_then (summary_totals dff) (\<lambda>totals.
        and_then (donut totals) (\<lambda>donut_fig.
        let group_by = ?by in
        and_then (groupby_sums group_by metrics dff) (\<lambda>groups.
        let stacked_df = frame_of_groups group_by metrics groups;
            stacked_df = (if v = Some ''percentage'' then pct stacked_df else stacked_df) in
        and_then (bar stacked_df group_by v) (\<lambda>stacked_fig.
        and_then (trend dff) (\<lambda>trend_fig.
          Inr (Plot donut_fig, Plot stacked_fig, Plot trend_fig)))))))"
    unfolding stage_def
    by (auto simp: load_def lift_def ret_def and_then_def new_obj_def assign_if_def
        store_obj_def Let_def split: sum.splits)
  show ?thesis
    unfolding run_update_summary_tab_def update_summary_tab_def
    by (intro implements_copy stage_derive_if tail)
qed

lemma implements_lift_copy:
  assumes "\<And>opt. stage a (k opt) (f opt)"
  shows "implements a
           (load a (\<lambda>df. if guard df then ret v else lift (m df) (\<lambda>opt. new_obj df (k opt))))
           (\<lambda>df. if guard df then Inr v else and_then (m df) (\<lambda>opt. f opt df))"
  unfolding implements_def
proof (intro allI impI)
  fix h :: store assume a: "a < next_addr h"
  let ?h = "h\<lparr>objs := (objs h)(next_addr h := objs h a), next_addr := Suc (next_addr h)\<rparr>"
  let ?p = "load a (\<lambda>df. if guard df then ret v else lift (m df) (\<lambda>opt. new_obj df (k opt)))"
  have *: "a < next_addr ?h \<and> next_addr h < next_addr ?h" using a by simp
  have k: "\<And>opt. fst (k opt (next_addr h) ?h) = f opt (objs ?h (next_addr h)) \<and>
    objs (snd (k opt (next_addr h) ?h)) a = objs ?h a \<and>
    next_addr ?h \<le> next_addr (snd (k opt (next_addr h) ?h))"
    using assms * unfolding stage_def by blast
  show "fst (?p h) = (if guard (objs h a) then Inr v
                      else and_then (m (objs h a)) (\<lambda>opt. f opt (objs h a))) \<and>
        objs (snd (?p h)) a = objs h a \<and> next_addr h \<le> next_addr (snd (?p h))"
  proof (cases "guard (objs h a)")
    case True
    then show ?thesis by (simp add: load_def ret_def)
  next
    case False
    show ?thesis
    proof (cases "m (objs h a)")
      case (Inl e)
      with False show ?thesis by (simp add: load_def lift_def and_then_def)
    next
      case (Inr opt)
      with False k [of opt] a show ?thesis
        by (simp add: load_def lift_def and_then_def new_obj_def)
    qed
  qed
qed

lemma geo_implements:
  "implements a (run_update_geo_tab title a m c k pt pc)
     (\<lambda>df. update_geo_tab title df m c k pt pc)"
proof -
  have tail: "\<And>opt. stage a
    (\<lambda>x. load x (\<lambda>d.
         lift (geo_title title (the m) c k) (\<lambda>title_text.
         lift (groupby_sum ''country'' (the m) d) (\<lambda>map_df.
         let map_fig = (if map_df \<noteq> [] then Plot (px_choropleth map_df) else go_Figure) in
         lift (groupby_sum ''country'' (the m) d) (\<lambda>countries_df.
         lift
          (if countries_df \<noteq> [] then
             (case pc of
                None \<Rightarrow> Inl TypeError
              | Some n \<Rightarrow>
                  Inr (Plot (px_bar (if pt = Some ''top''
                                     then nlargest n countries_df
                                     else nsmallest n countries_df))))
           else Inr go_Figure) (\<lambda>bar_fig.
         ret (fst opt, snd opt, map_fig, bar_fig, title_text)))))))
    (\<lambda>dff.
        and_then (geo_title title (the m) c k) (\<lambda>title_text.
        and_then (groupby_sum ''country'' (the m) dff) (\<lambda>map_df.
        let map_fig = (if map_df \<noteq> [] then Plot (px_choropleth map_df) else go_Figure) in
        and_then (groupby_sum ''country'' (the m) dff) (\<lambda>countries_df.
        and_then
          (if countries_df \<noteq> [] then
             (case pc of
                None \<Rightarrow> Inl TypeError
              | Some n \<Rightarrow>
                  Inr (Plot (px_bar (if pt = Some ''top''
                                     then nlargest n countries_df
                                     else nsmallest n countries_df))))
           else Inr go_Figure) (\<lambda>bar_fig.
        Inr (fst opt, snd opt, map_fig, bar_fig, title_text))))))"
    unfolding stage_def
    by (auto simp: load_def lift_def ret_def and_then_def Let_def split: sum.splits)
  show ?thesis
    unfolding run_update_geo_tab_def update_geo_tab_def case_prod_beta
    by (intro implements_lift_copy stage_derive_if tail)
qed

text \<open>
  C4. Every tab-update callback (overview, analytics, geo, time, age, summary, export
  preview), run on any store that holds the loaded table at \<open>df_addr\<close>, leaves the table at
  \<open>df_addr\<close> unchanged; returns the same result when it is called again with the same
  arguments; and returns the same result in every store that holds the same table. So
  its result is a function of its arguments and the loaded table alone. The filters work
  on a copy made for the request, and the one in-place assignment (the percentage view of
  the summary tab) writes to the grouped table, a new object. The plotting and
  statistics calls are taken as functions of their arguments.
\<close>

theorem callbacks_pure:
  "pure_callback df_addr
     (run_update_overview_content fmt activity_chart strftime df_addr auth active_tab) \<and>
   pure_callback df_addr
     (run_update_analytics_tab analytics_outputs to_datetime df_addr start_date end_date metric
        continent) \<and>
   pure_callback df_addr
     (run_update_geo_tab title df_addr metric continent country performance_type
        performance_count) \<and>
   pure_callback df_addr
     (run_update_time_tab time_outputs to_datetime df_addr start_date end_date metric continent
        country granularity) \<and>
   pure_callback df_addr (run_update_age_tab df_addr metric continent country) \<and>
   pure_callback df_addr
     (run_update_summary_tab donut percentage stacked_bar trend df_addr continent country
        view_type) \<and>
   pure_callback df_addr
     (run_update_export_preview to_datetime df_addr start_date end_date metric continent)"
  by (intro conjI implements_pure)
     (rule overview_implements analytics_implements geo_implements time_implements
        age_implements summary_implements export_preview_implements)+

theorem callbacks_pure_witness:
  "objs (snd (run_update_summary_tab (\<lambda>t. Inr ()) (\<lambda>d. d\<lparr>rows := []\<rparr>) (\<lambda>d g v. Inr ())
           (\<lambda>d. Inr ()) 0 (Some ''all'') (Some ''all'') (Some ''percentage'')
           \<lparr>objs = (\<lambda>a. sample_df), next_addr = 1\<rparr>)) 0 = sample_df \<and>
   fst (run_update_summary_tab (\<lambda>t. Inr ()) (\<lambda>d. d\<lparr>rows := []\<rparr>) (\<lambda>d g v. Inr ())
           (\<lambda>d. Inr ()) 0 (Some ''all'') (Some ''all'') (Some ''percentage'')
         (snd (run_update_summary_tab (\<lambda>t. Inr ()) (\<lambda>d. d\<lparr>rows := []\<rparr>) (\<lambda>d g v. Inr ())
           (\<lambda>d. Inr ()) 0 (Some ''all'') (Some ''all'') (Some ''percentage'')
           \<lparr>objs = (\<lambda>a. sample_df), next_addr = 1\<rparr>)))
   = fst (run_update_summary_tab (\<lambda>t. Inr ()) (\<lambda>d. d\<lparr>rows := []\<rparr>) (\<lambda>d g v. Inr ())
           (\<lambda>d. Inr ()) 0 (Some ''all'') (Some ''all'') (Some ''percentage'')
           \<lparr>objs = (\<lambda>a. sample_df), next_addr = 1\<rparr>)"
proof -
  let ?h = "\<lparr>objs = (\<lambda>a. sample_df), next_addr = 1\<rparr>"
  let ?p = "run_update_summary_tab (\<lambda>t. Inr ()) (\<lambda>d. d\<lparr>rows := []\<rparr>) (\<lambda>d g v. Inr ())
           (\<lambda>d. Inr () :: py_error + unit) 0 (Some ''all'') (Some ''all'') (Some ''percentage'')"
  have "pure_callback 0 ?p"
    by (rule callbacks_pure [where df_addr = 0 and donut = "\<lambda>t. Inr ()"
        and percentage = "\<lambda>d. d\<lparr>rows := []\<rparr>" and stacked_bar = "\<lambda>d g v. Inr ()"
        and trend = "\<lambda>d. Inr ()" and continent = "Some ''all''" and country = "Some ''all''"
        and view_type = "Some ''percentage''", THEN conjunct2, THEN conjunct2,
        THEN conjunct2, THEN conjunct2, THEN conjunct2, THEN conjunct1])
  moreover have "0 < next_addr ?h" by simp
  ultimately have "objs (snd (?p ?h)) 0 = objs ?h 0" "fst (?p (snd (?p ?h))) = fst (?p ?h)"
    unfolding pure_callback_def by blast+
  then show ?thesis by simp
qed

text \<open>In that run the percentage view did write: to the grouped table, at address 2.\<close>

lemma summary_writes_elsewhere:
  "rows (objs (snd (run_update_summary_tab (\<lambda>t. Inr ()) (\<lambda>d. d\<lparr>rows := []\<rparr>) (\<lambda>d g v. Inr ())
           (\<lambda>d. Inr ()) 0 (Some ''all'') (Some ''all'') (Some ''percentage'')
           \<lparr>objs = (\<lambda>a. sample_df), next_addr = 1\<rparr>)) 2) = [] \<and>
   rows (objs (snd (run_update_summary_tab (\<lambda>t. Inr ()) (\<lambda>d. d\<lparr>rows := []\<rparr>) (\<lambda>d g v. Inr ())
           (\<lambda>d. Inr ()) 0 (Some ''all'') (Some ''all'') (Some ''count'')
           \<lparr>objs = (\<lambda>a. sample_df), next_addr = 1\<rparr>)) 2) \<noteq> []"
  by (simp add: run_update_summary_tab_def load_def lift_def ret_def new_obj_def assign_if_def
      store_obj_def derive_if_def summary_totals_def groupby_sums_def group_keys_def getcol_def
      frame_of_groups_def metrics_def sample_df_def sample_columns_def mk_row_def df_empty_def
      and_then_def Let_def)

end
